theory Spec2Isabelle
  imports Complex_Main
begin

section \<open>Conventions of the embedding\<close>

text \<open>
  The scoring engine of \<^verbatim>\<open>backend/app/services/trading_service.py\<close> computes with
  Python floats. In the scores they are modelled as exact reals: rounding, infinities and
  NaN of IEEE arithmetic are outside the model there, with one exception that is written
  out where it occurs (a numpy division by zero, which yields \<open>inf\<close> or \<open>nan\<close>
  instead of raising). The position size is different: it converts a float quotient to an
  integer, so the rounding of the two divisions and their overflow to infinity decide the
  result, and both are modelled (see the float division below). Python integers are
  \<open>int\<close>, list positions are \<open>nat\<close>.

  Every exception the modelled code can raise is a value of \<open>py_error\<close>; a function
  that can raise returns \<open>py_error + 'a\<close>.
\<close>

datatype py_error =
    ValueError
  | ZeroDivisionError
  | IndexError
  | ValidationError
  | OverflowError
  | HTTPException nat

definition ebind :: "'e + 'a \<Rightarrow> ('a \<Rightarrow> 'e + 'b) \<Rightarrow> 'e + 'b" where
  "ebind m f = (case m of Inl e \<Rightarrow> Inl e | Inr v \<Rightarrow> f v)"

text \<open>Division of two Python floats raises on a zero divisor.\<close>

definition fdiv :: "real \<Rightarrow> real \<Rightarrow> py_error + real" where
  "fdiv a b = (if b = 0 then Inl ZeroDivisionError else Inr (a / b))"

text \<open>Indexing \<^verbatim>\<open>xs[i]\<close>: a negative index counts from the end, a position outside the list raises.\<close>

definition py_index :: "'a list \<Rightarrow> int \<Rightarrow> py_error + 'a" where
  "py_index xs i =
     (if 0 \<le> i \<and> i < int (length xs) then Inr (xs ! nat i)
      else if i < 0 \<and> - i \<le> int (length xs) then Inr (xs ! nat (int (length xs) + i))
      else Inl IndexError)"

text \<open>Slices \<^verbatim>\<open>xs[i:j]\<close>, \<^verbatim>\<open>xs[i:]\<close> and \<^verbatim>\<open>xs[:j]\<close> never raise: bounds are clipped to the list.\<close>

definition py_clip :: "nat \<Rightarrow> int \<Rightarrow> nat" where
  "py_clip n i = (if i < 0 then nat (max 0 (int n + i)) else min n (nat i))"

definition py_slice :: "'a list \<Rightarrow> int \<Rightarrow> int \<Rightarrow> 'a list" where
  "py_slice xs i j = take (py_clip (length xs) j - py_clip (length xs) i) (drop (py_clip (length xs) i) xs)"

definition py_slice_from :: "'a list \<Rightarrow> int \<Rightarrow> 'a list" where
  "py_slice_from xs i = drop (py_clip (length xs) i) xs"

definition py_slice_to :: "'a list \<Rightarrow> int \<Rightarrow> 'a list" where
  "py_slice_to xs j = take (py_clip (length xs) j) xs"

section \<open>Data model (app/schemas/trading.py)\<close>

datatype SignalType = BUY | SELL | HOLD

datatype RiskLevel = LOW | MEDIUM | HIGH

text \<open>
  \<open>NewsItem\<close>: the two fields the scoring engine reads. The schema bounds
  \<open>sentiment\<close> to \<open>[-1, 1]\<close> and \<open>sentiment_confidence\<close> to \<open>[0, 1]\<close>.
\<close>

record NewsItem =
  sentiment :: real
  sentiment_confidence :: real

text \<open>\<open>MarketDataBase\<close>: one price and volume bar.\<close>

record MarketData =
  symbol :: string
  timestamp :: int
  open_price :: real
  high_price :: real
  low_price :: real
  close_price :: real
  volume :: int

section \<open>Sentiment aggregation\<close>

text \<open>
  \<^verbatim>\<open>_calculate_sentiment_score\<close>. The \<^verbatim>\<open>for i, news in enumerate(news_data)\<close> loop is
  \<open>sentiment_loop\<close>, carrying the position \<open>i\<close> and the two accumulators
  \<open>(total_weight, weighted_sentiment)\<close>.
\<close>

fun sentiment_loop :: "nat \<Rightarrow> NewsItem list \<Rightarrow> real \<times> real \<Rightarrow> real \<times> real" where
  "sentiment_loop i [] acc = acc"
| "sentiment_loop i (news # rest) (total_weight, weighted_sentiment) =
     (let weight = 1 / (real i + 1);
          s = sentiment news * sentiment_confidence news
      in sentiment_loop (i + 1) rest (total_weight + weight, weighted_sentiment + s * weight))"

definition calculate_sentiment_score :: "NewsItem list \<Rightarrow> real" where
  "calculate_sentiment_score news_data =
     (if news_data = [] then 0
      else (case sentiment_loop 0 news_data (0, 0) of
              (total_weight, weighted_sentiment) \<Rightarrow>
                if total_weight > 0 then weighted_sentiment / total_weight else 0))"

section \<open>Technical score\<close>

text \<open>
  \<open>TechnicalIndicators\<close>: one optional value per indicator; \<open>None\<close> is Python's
  \<^verbatim>\<open>None\<close> (not enough history). The \<^verbatim>\<open>symbol\<close> and \<^verbatim>\<open>timestamp\<close> fields of the
  schema are not read by any scorer and are left out.
\<close>

record TechnicalIndicators =
  sma_20 :: "real option"
  sma_50 :: "real option"
  ema_12 :: "real option"
  ema_26 :: "real option"
  rsi :: "real option"
  macd :: "real option"
  macd_signal :: "real option"
  macd_histogram :: "real option"
  bollinger_upper :: "real option"
  bollinger_middle :: "real option"
  bollinger_lower :: "real option"
  stochastic_k :: "real option"
  stochastic_d :: "real option"
  williams_r :: "real option"
  atr :: "real option"

text \<open>
  \<^verbatim>\<open>_calculate_technical_score\<close> runs six blocks in sequence over the two local variables
  \<^verbatim>\<open>score\<close> and \<^verbatim>\<open>signals_count\<close>. Each block is one function on the pair
  \<open>(score, signals_count)\<close>; the two blocks that divide can raise.
\<close>

definition rsi_signals :: "TechnicalIndicators \<Rightarrow> real \<times> nat \<Rightarrow> real \<times> nat" where
  "rsi_signals indicators st =
     (case st of (score, signals_count) \<Rightarrow>
        (case rsi indicators of
           None \<Rightarrow> (score, signals_count)
         | Some r \<Rightarrow>
             ((if r < 30 then score + 0.7
               else if r > 70 then score - 0.7
               else if 40 \<le> r \<and> r \<le> 60 then score + 0.1
               else score),
              signals_count + 1)))"

definition macd_signals :: "TechnicalIndicators \<Rightarrow> real \<times> nat \<Rightarrow> real \<times> nat" where
  "macd_signals indicators st =
     (case st of (score, signals_count) \<Rightarrow>
        (case (macd indicators, macd_signal indicators) of
           (Some m, Some sg) \<Rightarrow> ((if m > sg then score + 0.5 else score - 0.5), signals_count + 1)
         | _ \<Rightarrow> (score, signals_count)))"

definition moving_average_signals :: "TechnicalIndicators \<Rightarrow> real \<times> nat \<Rightarrow> real \<times> nat" where
  "moving_average_signals indicators st =
     (case st of (score, signals_count) \<Rightarrow>
        (case (sma_20 indicators, sma_50 indicators) of
           (Some a, Some b) \<Rightarrow> ((if a > b then score + 0.6 else score - 0.6), signals_count + 1)
         | _ \<Rightarrow> (score, signals_count)))"

definition price_vs_average ::
  "TechnicalIndicators \<Rightarrow> real \<Rightarrow> real \<times> nat \<Rightarrow> py_error + real \<times> nat" where
  "price_vs_average indicators current_price st =
     (case st of (score, signals_count) \<Rightarrow>
        (case sma_20 indicators of
           None \<Rightarrow> Inr (score, signals_count)
         | Some a \<Rightarrow>
             ebind (fdiv (current_price - a) a) (\<lambda>price_vs_sma.
               Inr (score + min (max (price_vs_sma * 2) (- 0.5)) 0.5, signals_count + 1))))"

text \<open>
  The Bollinger block is guarded by \<^verbatim>\<open>all([upper, lower, middle])\<close>, a truth test: a band
  that is \<^verbatim>\<open>None\<close> or \<^verbatim>\<open>0.0\<close> is false.
\<close>

definition bollinger_signals ::
  "TechnicalIndicators \<Rightarrow> real \<Rightarrow> real \<times> nat \<Rightarrow> py_error + real \<times> nat" where
  "bollinger_signals indicators current_price st =
     (case st of (score, signals_count) \<Rightarrow>
        (case (bollinger_upper indicators, bollinger_lower indicators, bollinger_middle indicators) of
           (Some u, Some l, Some m) \<Rightarrow>
             if u \<noteq> 0 \<and> l \<noteq> 0 \<and> m \<noteq> 0 then
               ebind (fdiv (current_price - l) (u - l)) (\<lambda>bb_position.
                 Inr ((if bb_position < 0.2 then score + 0.4
                       else if bb_position > 0.8 then score - 0.4
                       else score),
                      signals_count + 1))
             else Inr (score, signals_count)
         | _ \<Rightarrow> Inr (score, signals_count)))"

definition stochastic_signals :: "TechnicalIndicators \<Rightarrow> real \<times> nat \<Rightarrow> real \<times> nat" where
  "stochastic_signals indicators st =
     (case st of (score, signals_count) \<Rightarrow>
        (case stochastic_k indicators of
           None \<Rightarrow> (score, signals_count)
         | Some k \<Rightarrow>
             ((if k < 20 then score + 0.3 else if k > 80 then score - 0.3 else score),
              signals_count + 1)))"

definition calculate_technical_score ::
  "TechnicalIndicators \<Rightarrow> MarketData list \<Rightarrow> py_error + real" where
  "calculate_technical_score indicators market_data =
     ebind (py_index market_data (- 1)) (\<lambda>bar.
     ebind (price_vs_average indicators (close_price bar)
              (moving_average_signals indicators
                 (macd_signals indicators (rsi_signals indicators (0, 0))))) (\<lambda>st.
     ebind (bollinger_signals indicators (close_price bar) st) (\<lambda>st.
       (case stochastic_signals indicators st of
          (score, signals_count) \<Rightarrow>
            Inr (if signals_count > 0 then score / real signals_count else 0)))))"

section \<open>Volume and momentum scores\<close>

text \<open>\<^verbatim>\<open>_calculate_volume_score\<close>.\<close>

definition calculate_volume_score :: "MarketData list \<Rightarrow> py_error + real" where
  "calculate_volume_score market_data =
     (if length market_data < 20 then Inr 0
      else
        let recent_volumes = map volume (py_slice_from market_data (- 5));
            avg_volume = real_of_int (sum_list (map volume (py_slice market_data (- 20) (- 5)))) / 15
        in if avg_volume = 0 then Inr 0
           else
             ebind (py_index recent_volumes (- 1)) (\<lambda>current_volume.
             ebind (fdiv (real_of_int current_volume) avg_volume) (\<lambda>volume_ratio.
               Inr (if volume_ratio > 1.5 then 0.5
                    else if volume_ratio < 0.5 then - 0.2
                    else 0.1))))"

text \<open>
  \<^verbatim>\<open>_calculate_momentum_score\<close>. \<open>period_return market_data current_price k\<close> is the
  expression \<^verbatim>\<open>(current_price - market_data[-k].close_price) / market_data[-k].close_price\<close>.
\<close>

definition period_return :: "MarketData list \<Rightarrow> real \<Rightarrow> int \<Rightarrow> py_error + real" where
  "period_return market_data current_price k =
     ebind (py_index market_data (- k)) (\<lambda>bar.
       fdiv (current_price - close_price bar) (close_price bar))"

definition calculate_momentum_score :: "MarketData list \<Rightarrow> py_error + real" where
  "calculate_momentum_score market_data =
     (if length market_data < 10 then Inr 0
      else
        ebind (py_index market_data (- 1)) (\<lambda>bar.
        let current_price = close_price bar in
        ebind (period_return market_data current_price 2) (\<lambda>day_1_return.
        ebind (if length market_data \<ge> 6 then period_return market_data current_price 6
               else Inr 0) (\<lambda>day_5_return.
        ebind (if length market_data \<ge> 11 then period_return market_data current_price 11
               else Inr 0) (\<lambda>day_10_return.
        let momentum_score = day_1_return * 0.5 + day_5_return * 0.3 + day_10_return * 0.2
        in Inr (min (max (momentum_score * 10) (- 1)) 1))))))"

section \<open>Signal type and confidence\<close>

text \<open>
  The \<^verbatim>\<open>config\<close> argument of the service is a plain dictionary; \<open>config_get\<close> is
  \<^verbatim>\<open>config.get(key, default)\<close>.
\<close>

type_synonym config = "string \<rightharpoonup> real"

definition config_get :: "config \<Rightarrow> string \<Rightarrow> real \<Rightarrow> real" where
  "config_get config k d = (case config k of None \<Rightarrow> d | Some v \<Rightarrow> v)"

definition determine_signal_type :: "real \<Rightarrow> config \<Rightarrow> SignalType" where
  "determine_signal_type combined_score config =
     (let buy_threshold = config_get config ''buy_threshold'' 0.3;
          sell_threshold = config_get config ''sell_threshold'' (- 0.3)
      in if combined_score \<ge> buy_threshold then BUY
         else if combined_score \<le> sell_threshold then SELL
         else HOLD)"

text \<open>
  \<^verbatim>\<open>_calculate_confidence\<close>. The scores arrive as a list that may hold \<^verbatim>\<open>None\<close>; the
  counts are Python integers.
\<close>

definition calculate_confidence :: "real option list \<Rightarrow> real" where
  "calculate_confidence scores =
     (let valid_scores = List.map_filter id scores
      in if valid_scores = [] then 0
         else
           let positive_scores = int (length (filter (\<lambda>s. s > 0.1) valid_scores));
               negative_scores = int (length (filter (\<lambda>s. s < - 0.1) valid_scores));
               neutral_scores = int (length valid_scores) - positive_scores - negative_scores;
               max_agreement = max positive_scores (max negative_scores neutral_scores);
               agreement_ratio = real_of_int max_agreement / real (length valid_scores);
               avg_magnitude = sum_list (map abs valid_scores) / real (length valid_scores);
               confidence = agreement_ratio * 0.6 + avg_magnitude * 0.4
           in min confidence 1)"

section \<open>Risk level and position size\<close>

text \<open>
  \<^verbatim>\<open>np.mean\<close> and \<^verbatim>\<open>np.std\<close> (the population standard deviation, numpy's default).
\<close>

definition np_mean :: "real list \<Rightarrow> real" where
  "np_mean xs = sum_list xs / real (length xs)"

definition np_std :: "real list \<Rightarrow> real" where
  "np_std xs = sqrt (np_mean (map (\<lambda>x. (x - np_mean xs)\<^sup>2) xs))"

text \<open>
  \<^verbatim>\<open>_calculate_risk_level\<close> increments the local counter \<^verbatim>\<open>risk_factors\<close> in four blocks
  and then maps the counter to a level. Each block is a function on the counter.

  In the volatility block both operands are numpy floats, so a zero mean does not raise:
  the quotient is \<open>inf\<close> (greater than 0.03) for a positive deviation and \<open>nan\<close>
  (every comparison false) for a zero one.
\<close>

definition volatility_check :: "MarketData list \<Rightarrow> nat \<Rightarrow> nat" where
  "volatility_check market_data risk_factors =
     (if length market_data \<ge> 20 then
        let recent_prices = map close_price (py_slice_from market_data (- 20));
            sd = np_std recent_prices;
            mean = np_mean recent_prices
        in if (if mean = 0 then sd > 0 else sd / mean > 0.03) then risk_factors + 1
           else risk_factors
      else risk_factors)"

text \<open>
  The ATR block is guarded by \<^verbatim>\<open>indicators.atr and len(market_data) > 0\<close> and the RSI
  block by \<^verbatim>\<open>if indicators.rsi:\<close>; both are truth tests, false for \<^verbatim>\<open>None\<close> and for
  \<^verbatim>\<open>0.0\<close>.
\<close>

definition atr_check :: "TechnicalIndicators \<Rightarrow> MarketData list \<Rightarrow> nat \<Rightarrow> py_error + nat" where
  "atr_check indicators market_data risk_factors =
     (case atr indicators of
        None \<Rightarrow> Inr risk_factors
      | Some a \<Rightarrow>
          if a \<noteq> 0 \<and> length market_data > 0 then
            ebind (py_index market_data (- 1)) (\<lambda>bar.
            ebind (fdiv a (close_price bar)) (\<lambda>atr_ratio.
              Inr (if atr_ratio > 0.025 then risk_factors + 1 else risk_factors)))
          else Inr risk_factors)"

definition news_check :: "NewsItem list \<Rightarrow> nat \<Rightarrow> nat" where
  "news_check news_data risk_factors =
     (if news_data \<noteq> [] then
        let sentiments = map sentiment (py_slice_to news_data 5);
            sentiment_std = (if length sentiments > 1 then np_std sentiments else 0)
        in if sentiment_std > 0.5 then risk_factors + 1 else risk_factors
      else risk_factors)"

definition rsi_check :: "TechnicalIndicators \<Rightarrow> nat \<Rightarrow> nat" where
  "rsi_check indicators risk_factors =
     (case rsi indicators of
        None \<Rightarrow> risk_factors
      | Some r \<Rightarrow>
          if r \<noteq> 0 then (if r > 80 \<or> r < 20 then risk_factors + 1 else risk_factors)
          else risk_factors)"

definition risk_level_of :: "nat \<Rightarrow> RiskLevel" where
  "risk_level_of risk_factors =
     (if risk_factors \<ge> 3 then HIGH
      else if risk_factors \<ge> 1 then MEDIUM
      else LOW)"

definition calculate_risk_level ::
  "MarketData list \<Rightarrow> NewsItem list \<Rightarrow> TechnicalIndicators \<Rightarrow> py_error + RiskLevel" where
  "calculate_risk_level market_data news_data indicators =
     ebind (atr_check indicators market_data (volatility_check market_data 0)) (\<lambda>risk_factors.
       Inr (risk_level_of (rsi_check indicators (news_check news_data risk_factors))))"

text \<open>
  The service object: \<^verbatim>\<open>SignalWeights\<close> (a dataclass with defaults) and
  \<^verbatim>\<open>TradingService.__init__\<close>. The weight fields are named \<^verbatim>\<open>sentiment\<close>,
  \<^verbatim>\<open>technical\<close>, \<^verbatim>\<open>volume\<close>, \<^verbatim>\<open>momentum\<close> in the source; they carry a prefix here
  because \<open>sentiment\<close> and \<open>volume\<close> are fields of other records already. The
  dictionary \<^verbatim>\<open>risk_multipliers\<close> has all three levels as keys, so it is a total function.
\<close>

record SignalWeights =
  weight_sentiment :: real
  weight_technical :: real
  weight_volume :: real
  weight_momentum :: real

definition SignalWeights_default :: SignalWeights where
  "SignalWeights_default =
     \<lparr>weight_sentiment = 0.4, weight_technical = 0.4, weight_volume = 0.1, weight_momentum = 0.1\<rparr>"

record TradingService =
  signal_weights :: SignalWeights
  min_confidence_threshold :: real
  risk_multipliers :: "RiskLevel \<Rightarrow> real"

definition TradingService_init :: TradingService where
  "TradingService_init =
     \<lparr>signal_weights = SignalWeights_default,
      min_confidence_threshold = 0.6,
      risk_multipliers = (\<lambda>level. case level of LOW \<Rightarrow> 0.5 | MEDIUM \<Rightarrow> 1.0 | HIGH \<Rightarrow> 1.5)\<rparr>"

subsection \<open>Float division\<close>

text \<open>
  A Python float is an IEEE 754 binary64 value. A finite one is the real number it
  denotes; the result of a division can also be an infinity. (NaN does not arise from
  dividing finite operands by a non-zero divisor, and a zero divisor raises.)
\<close>

datatype pyfloat = Finite real | PosInf | NegInf

text \<open>Rounding a real to the nearest integer, a tie going to the even neighbour.\<close>

definition round_half_even :: "real \<Rightarrow> int" where
  "round_half_even y =
     (let f = \<lfloor>y\<rfloor>; d = y - of_int f
      in if d < 1 / 2 then f
         else if d > 1 / 2 then f + 1
         else if even f then f else f + 1)"

text \<open>
  The spacing of binary64 values around \<open>x\<close>: 53 significant bits in the binade of
  \<open>x\<close>, and the spacing \<open>2 powi (- 1074)\<close> of the subnormal range below
  \<open>2 powi (- 1022)\<close>.
\<close>

definition float_ulp :: "real \<Rightarrow> real" where
  "float_ulp x = 2 powi (max \<lfloor>log 2 \<bar>x\<bar>\<rfloor> (- 1022) - 52)"

text \<open>
  Round to nearest, ties to even: the exact result is rounded to a multiple of the
  spacing, and becomes an infinity when the rounded magnitude reaches \<open>2 ^ 1024\<close>.
\<close>

definition float_round :: "real \<Rightarrow> pyfloat" where
  "float_round x =
     (if x = 0 then Finite 0
      else
        let r = of_int (round_half_even (x / float_ulp x)) * float_ulp x
        in if \<bar>r\<bar> \<ge> 2 ^ 1024 then (if x > 0 then PosInf else NegInf)
           else Finite r)"

text \<open>
  \<^verbatim>\<open>a / b\<close> on floats, for a finite divisor \<open>b\<close>: a zero divisor raises, a finite
  dividend gives the rounded quotient, an infinite one stays infinite.
\<close>

definition float_div :: "pyfloat \<Rightarrow> real \<Rightarrow> py_error + pyfloat" where
  "float_div a b =
     (if b = 0 then Inl ZeroDivisionError
      else (case a of
              Finite x \<Rightarrow> Inr (float_round (x / b))
            | PosInf \<Rightarrow> Inr (if b > 0 then PosInf else NegInf)
            | NegInf \<Rightarrow> Inr (if b > 0 then NegInf else PosInf)))"

text \<open>
  \<^verbatim>\<open>int(x)\<close> on a float truncates towards zero, and raises \<^verbatim>\<open>OverflowError\<close> on an
  infinity.
\<close>

definition py_int :: "real \<Rightarrow> int" where
  "py_int x = (if x \<ge> 0 then \<lfloor>x\<rfloor> else \<lceil>x\<rceil>)"

definition float_to_int :: "pyfloat \<Rightarrow> py_error + int" where
  "float_to_int a =
     (case a of
        Finite x \<Rightarrow> Inr (py_int x)
      | PosInf \<Rightarrow> Inl OverflowError
      | NegInf \<Rightarrow> Inl OverflowError)"

text \<open>
  \<^verbatim>\<open>_calculate_position_size\<close>. The default \<^verbatim>\<open>settings.MAX_POSITION_SIZE\<close> comes from
  \<^verbatim>\<open>app.core.config\<close>, which is not part of the sources at hand; it is the parameter
  \<open>MAX_POSITION_SIZE\<close>. The budget, the multiplier and the price are finite floats;
  the two divisions are float divisions.
\<close>

definition calculate_position_size ::
  "TradingService \<Rightarrow> real \<Rightarrow> real \<Rightarrow> RiskLevel \<Rightarrow> config \<Rightarrow> py_error + int" where
  "calculate_position_size self MAX_POSITION_SIZE current_price risk_level config =
     (let max_position_size = config_get config ''max_position_size'' MAX_POSITION_SIZE;
          risk_multiplier = risk_multipliers self risk_level
      in ebind (float_div (Finite max_position_size) risk_multiplier) (\<lambda>adjusted_position_size.
         ebind (float_div adjusted_position_size current_price) (\<lambda>q.
         ebind (float_to_int q) (\<lambda>quantity.
           Inr (max 1 (min quantity 1000))))))"

section \<open>Signal generation\<close>

text \<open>
  \<open>TradeSignal\<close> (schema and database row have the same fields). The fields
  \<^verbatim>\<open>id\<close> and \<^verbatim>\<open>symbol\<close> carry a prefix: \<open>id\<close> is HOL's identity and \<open>symbol\<close> a
  field of \<open>MarketData\<close>. Times are seconds on an integer clock.
\<close>

record TradeSignal =
  signal_id :: int
  user_id :: "int option"
  signal_symbol :: string
  signal :: SignalType
  price :: real
  quantity :: int
  confidence :: real
  sentiment_score :: real
  technical_score :: real
  combined_score :: real
  risk_level :: RiskLevel
  reason :: string
  executed :: bool
  created_at :: int
  expires_at :: "int option"

text \<open>
  Constructing a \<open>TradeSignal\<close> validates the bounded fields of \<open>TradeSignalBase\<close>
  (\<^verbatim>\<open>confidence\<close> in \<open>[0, 1]\<close>, both scores in \<open>[-1, 1]\<close>).
\<close>

definition TradeSignal_new :: "TradeSignal \<Rightarrow> py_error + TradeSignal" where
  "TradeSignal_new s =
     (if 0 \<le> confidence s \<and> confidence s \<le> 1
         \<and> - 1 \<le> sentiment_score s \<and> sentiment_score s \<le> 1
         \<and> - 1 \<le> technical_score s \<and> technical_score s \<le> 1
      then Inr s else Inl ValidationError)"

text \<open>\<^verbatim>\<open>sep.join(parts)\<close> and \<^verbatim>\<open>_generate_reasoning\<close>.\<close>

fun py_join :: "string \<Rightarrow> string list \<Rightarrow> string" where
  "py_join sep [] = []"
| "py_join sep [x] = x"
| "py_join sep (x # y # ys) = x @ sep @ py_join sep (y # ys)"

definition generate_reasoning ::
  "SignalType \<Rightarrow> real \<Rightarrow> real \<Rightarrow> real \<Rightarrow> real \<Rightarrow> string \<Rightarrow> string" where
  "generate_reasoning signal_type sentiment_sc technical_sc volume_sc momentum_sc symb =
     (let reasons =
            (if sentiment_sc > 0.3 then [''Strong positive market sentiment from recent news'']
             else if sentiment_sc < - 0.3 then [''Negative sentiment from recent market news'']
             else if \<bar>sentiment_sc\<bar> < 0.1 then [''Neutral sentiment in recent news coverage'']
             else [])
          @ (if technical_sc > 0.4 then [''Strong bullish technical indicators'']
             else if technical_sc < - 0.4 then [''Bearish technical signals present'']
             else if \<bar>technical_sc\<bar> < 0.1 then [''Mixed technical signals'']
             else [])
          @ (if volume_sc > 0.3 then [''Above-average trading volume supporting the move'']
             else if volume_sc < 0 then [''Below-average volume may indicate weak conviction'']
             else [])
          @ (if momentum_sc > 0.3 then [''Strong upward price momentum'']
             else if momentum_sc < - 0.3 then [''Downward price momentum observed'']
             else [])
          @ (case signal_type of
               BUY \<Rightarrow> [''Multiple factors align for a potential buying opportunity in '' @ symb]
             | SELL \<Rightarrow> [''Risk indicators suggest considering a sell position in '' @ symb]
             | HOLD \<Rightarrow> [''Mixed signals recommend holding current position in '' @ symb])
      in py_join ''. '' reasons @ ''.'')"

text \<open>
  \<^verbatim>\<open>generate_signal\<close>. What the service fetches from its collaborators is an argument
  of the model: the bars (\<^verbatim>\<open>alpaca_service.get_market_data\<close>), the news
  (\<^verbatim>\<open>news_service.fetch_news\<close>), the indicator set computed by TA-Lib, and the clock
  \<open>now\<close>. The signal expires 24 hours after its creation.
\<close>

definition generate_signal ::
  "TradingService \<Rightarrow> real \<Rightarrow> string \<Rightarrow> config \<Rightarrow> int option \<Rightarrow>
   MarketData list \<Rightarrow> NewsItem list \<Rightarrow> TechnicalIndicators \<Rightarrow> int \<Rightarrow> py_error + TradeSignal" where
  "generate_signal self MAX_POSITION_SIZE symb config uid market_data news_data technical_indicators now =
     (if length market_data < 50 then Inl ValueError
      else
        let sentiment_sc = calculate_sentiment_score news_data in
        ebind (calculate_technical_score technical_indicators market_data) (\<lambda>technical_sc.
        ebind (calculate_volume_score market_data) (\<lambda>volume_sc.
        ebind (calculate_momentum_score market_data) (\<lambda>momentum_sc.
        let combined =
              sentiment_sc * weight_sentiment (signal_weights self) +
              technical_sc * weight_technical (signal_weights self) +
              volume_sc * weight_volume (signal_weights self) +
              momentum_sc * weight_momentum (signal_weights self);
            signal_type = determine_signal_type combined config;
            conf = calculate_confidence
                     [Some sentiment_sc, Some technical_sc, Some volume_sc, Some momentum_sc]
        in
        ebind (calculate_risk_level market_data news_data technical_indicators) (\<lambda>level.
        ebind (py_index market_data (- 1)) (\<lambda>bar.
        let current_price = close_price bar in
        ebind (calculate_position_size self MAX_POSITION_SIZE current_price level config)
          (\<lambda>recommended_qty.
        let reasoning = generate_reasoning signal_type sentiment_sc technical_sc volume_sc
                          momentum_sc symb
        in TradeSignal_new
             \<lparr>signal_id = 0, user_id = uid, signal_symbol = symb, signal = signal_type,
              price = current_price, quantity = recommended_qty, confidence = conf,
              sentiment_score = sentiment_sc, technical_score = technical_sc,
              combined_score = combined, risk_level = level, reason = reasoning,
              executed = False, created_at = now,
              expires_at = Some (now + 24 * 3600)\<rparr>)))))))"

section \<open>Signal execution (app/api/v1/endpoints/trading.py)\<close>

text \<open>
  \<^verbatim>\<open>execute_trade\<close>. The database is a map from signal ids to rows and is returned
  updated. The broker call \<^verbatim>\<open>alpaca_service.execute_trade(signal)\<close> talks to an external
  service; it catches its own exceptions and always returns a result dictionary with a
  \<^verbatim>\<open>success\<close> flag, so it is the parameter \<open>broker\<close>.
\<close>

record TradeResult =
  success :: bool
  message :: string

definition execute_trade ::
  "(int \<rightharpoonup> TradeSignal) \<Rightarrow> (TradeSignal \<Rightarrow> TradeResult) \<Rightarrow> int \<Rightarrow>
   (py_error + TradeResult) \<times> (int \<rightharpoonup> TradeSignal)" where
  "execute_trade db broker sid =
     (case db sid of
        None \<Rightarrow> (Inl (HTTPException 404), db)
      | Some sg \<Rightarrow>
          if executed sg then (Inl (HTTPException 400), db)
          else
            let result = broker sg
            in if success result then (Inr result, db(sid \<mapsto> sg\<lparr>executed := True\<rparr>))
               else (Inr result, db))"

section \<open>Configuration schema (TradingConfig)\<close>

text \<open>
  \<open>TradingConfig\<close> is a pydantic model. Its constructor takes keyword arguments, each of
  which may be left out (\<open>None\<close> in \<open>TradingConfigArgs\<close>); a field left out takes its
  default, and pydantic validates neither the bounds nor the \<^verbatim>\<open>@validator\<close> of a default.
  Fields are validated in the order of declaration. The validator
  \<^verbatim>\<open>weights_must_sum_to_one\<close> runs for \<^verbatim>\<open>sentiment_weight\<close> (where the dictionary
  \<^verbatim>\<open>values\<close> of the fields before it has no \<^verbatim>\<open>sentiment_weight\<close> yet, so it accepts) and
  for \<^verbatim>\<open>technical_weight\<close> (where \<^verbatim>\<open>values\<close> holds the sentiment weight unless that one
  failed its own bounds). Any failure makes the constructor raise.
\<close>

record TradingConfig =
  cfg_symbol :: string
  buy_threshold :: real
  sell_threshold :: real
  risk_tolerance :: RiskLevel
  max_position_size :: real
  enable_notifications :: bool
  enable_paper_trading :: bool
  stop_loss_percent :: real
  take_profit_percent :: real
  sentiment_weight :: real
  technical_weight :: real

record TradingConfigArgs =
  arg_symbol :: "string option"
  arg_buy_threshold :: "real option"
  arg_sell_threshold :: "real option"
  arg_risk_tolerance :: "RiskLevel option"
  arg_max_position_size :: "real option"
  arg_enable_notifications :: "bool option"
  arg_enable_paper_trading :: "bool option"
  arg_stop_loss_percent :: "real option"
  arg_take_profit_percent :: "real option"
  arg_sentiment_weight :: "real option"
  arg_technical_weight :: "real option"

definition no_args :: TradingConfigArgs where
  "no_args =
     \<lparr>arg_symbol = None, arg_buy_threshold = None, arg_sell_threshold = None,
      arg_risk_tolerance = None, arg_max_position_size = None, arg_enable_notifications = None,
      arg_enable_paper_trading = None, arg_stop_loss_percent = None,
      arg_take_profit_percent = None, arg_sentiment_weight = None, arg_technical_weight = None\<rparr>"

definition field_default :: "'a option \<Rightarrow> 'a \<Rightarrow> 'a" where
  "field_default given d = (case given of None \<Rightarrow> d | Some v \<Rightarrow> v)"

text \<open>The bounds \<^verbatim>\<open>Field(..., ge=lo, le=hi)\<close> of a field that was given.\<close>

definition in_bounds :: "real option \<Rightarrow> real \<Rightarrow> real \<Rightarrow> bool" where
  "in_bounds given lo hi = (case given of None \<Rightarrow> True | Some v \<Rightarrow> lo \<le> v \<and> v \<le> hi)"

text \<open>
  The validator body for the value \<open>v\<close>, with \<open>seen\<close> the entry
  \<^verbatim>\<open>values['sentiment_weight']\<close> if there is one: \<open>True\<close> when it returns, \<open>False\<close> when
  it raises.
\<close>

definition weights_must_sum_to_one :: "real \<Rightarrow> real option \<Rightarrow> bool" where
  "weights_must_sum_to_one v seen =
     (case seen of None \<Rightarrow> True | Some sw \<Rightarrow> \<not> (\<bar>v + sw - 1\<bar> > 0.01))"

definition TradingConfig_new :: "TradingConfigArgs \<Rightarrow> py_error + TradingConfig" where
  "TradingConfig_new a =
     (let buy_ok = in_bounds (arg_buy_threshold a) (- 1) 1;
          sell_ok = in_bounds (arg_sell_threshold a) (- 1) 1;
          sentiment_ok = (in_bounds (arg_sentiment_weight a) 0 1
                          \<and> (case arg_sentiment_weight a of
                                None \<Rightarrow> True | Some v \<Rightarrow> weights_must_sum_to_one v None));
          seen = (if sentiment_ok then Some (field_default (arg_sentiment_weight a) 0.6) else None);
          technical_ok = (in_bounds (arg_technical_weight a) 0 1
                          \<and> (case arg_technical_weight a of
                                None \<Rightarrow> True | Some v \<Rightarrow> weights_must_sum_to_one v seen))
      in if buy_ok \<and> sell_ok \<and> sentiment_ok \<and> technical_ok then
           Inr \<lparr>cfg_symbol = field_default (arg_symbol a) ''RELIANCE'',
                buy_threshold = field_default (arg_buy_threshold a) 0.2,
                sell_threshold = field_default (arg_sell_threshold a) (- 0.2),
                risk_tolerance = field_default (arg_risk_tolerance a) MEDIUM,
                max_position_size = field_default (arg_max_position_size a) 10000,
                enable_notifications = field_default (arg_enable_notifications a) True,
                enable_paper_trading = field_default (arg_enable_paper_trading a) True,
                stop_loss_percent = field_default (arg_stop_loss_percent a) 5,
                take_profit_percent = field_default (arg_take_profit_percent a) 10,
                sentiment_weight = field_default (arg_sentiment_weight a) 0.6,
                technical_weight = field_default (arg_technical_weight a) 0.4\<rparr>
         else Inl ValidationError)"

section \<open>The specification's formulas, for comparison with the code\<close>

text \<open>
  The definitions of this section follow the words of the specification, not the code.
  They are used only to state where the two agree and where they differ.
\<close>

text \<open>
  Score combination as specified: the four weights are read from the supplied
  configuration, with the defaults 0.4, 0.4, 0.1 and 0.1.
\<close>

definition spec_combined_score :: "config \<Rightarrow> real \<Rightarrow> real \<Rightarrow> real \<Rightarrow> real \<Rightarrow> real" where
  "spec_combined_score config s t v m =
     s * config_get config ''sentiment_weight'' 0.4 +
     t * config_get config ''technical_weight'' 0.4 +
     v * config_get config ''volume_weight'' 0.1 +
     m * config_get config ''momentum_weight'' 0.1"

text \<open>A signal is past its expiry once the clock is beyond \<open>expires_at\<close>.\<close>

definition spec_expired :: "int \<Rightarrow> TradeSignal \<Rightarrow> bool" where
  "spec_expired now sg = (case expires_at sg of None \<Rightarrow> False | Some t \<Rightarrow> now > t)"

text \<open>
  The technical score as specified: the list of the contributions of the indicators that
  are present (set, whatever their value), and their mean. Only unset indicators are
  excluded from the denominator; a present indicator whose value matches no row of the
  table (an RSI of 35, say) contributes 0 and is counted. The MACD and moving-average rows
  need both of their values, the Bollinger row all three bands.
\<close>

definition spec_contributions :: "TechnicalIndicators \<Rightarrow> real \<Rightarrow> real list" where
  "spec_contributions indicators current_price =
     (case rsi indicators of
        None \<Rightarrow> []
      | Some r \<Rightarrow> [if r < 30 then 0.7 else if r > 70 then - 0.7
                   else if 40 \<le> r \<and> r \<le> 60 then 0.1 else 0])
     @ (case (macd indicators, macd_signal indicators) of
          (Some m, Some sg) \<Rightarrow> [if m > sg then 0.5 else - 0.5]
        | _ \<Rightarrow> [])
     @ (case (sma_20 indicators, sma_50 indicators) of
          (Some a, Some b) \<Rightarrow> [if a > b then 0.6 else - 0.6]
        | _ \<Rightarrow> [])
     @ (case sma_20 indicators of
          None \<Rightarrow> []
        | Some a \<Rightarrow> [min (max ((current_price - a) / a * 2) (- 0.5)) 0.5])
     @ (case (bollinger_upper indicators, bollinger_lower indicators, bollinger_middle indicators) of
          (Some u, Some l, Some m) \<Rightarrow>
            [if (current_price - l) / (u - l) < 0.2 then 0.4
             else if (current_price - l) / (u - l) > 0.8 then - 0.4 else 0]
        | _ \<Rightarrow> [])
     @ (case stochastic_k indicators of
          None \<Rightarrow> []
        | Some k \<Rightarrow> [if k < 20 then 0.3 else if k > 80 then - 0.3 else 0])"

definition spec_technical_score :: "TechnicalIndicators \<Rightarrow> real \<Rightarrow> real" where
  "spec_technical_score indicators current_price =
     (let cs = spec_contributions indicators current_price
      in if cs = [] then 0 else sum_list cs / real (length cs))"

text \<open>
  The position size as specified: the floor of the exact quotient, clamped to
  \<open>[1, 1000]\<close>.
\<close>

definition spec_position_size :: "real \<Rightarrow> RiskLevel \<Rightarrow> real \<Rightarrow> int" where
  "spec_position_size budget level current_price =
     max 1 (min \<lfloor>(budget / (case level of LOW \<Rightarrow> 0.5 | MEDIUM \<Rightarrow> 1.0 | HIGH \<Rightarrow> 1.5))
                   / current_price\<rfloor> 1000)"

text \<open>The RSI risk condition as specified: RSI present and beyond 80 or below 20.\<close>

definition spec_rsi_extreme :: "TechnicalIndicators \<Rightarrow> bool" where
  "spec_rsi_extreme indicators =
     (case rsi indicators of None \<Rightarrow> False | Some r \<Rightarrow> r > 80 \<or> r < 20)"

text \<open>
  The volume score as specified: the mean volume of the last 5 bars against the mean of
  the 15 bars before them, the ratio taken as 0 for a zero baseline.
\<close>

definition spec_volume_score :: "MarketData list \<Rightarrow> real" where
  "spec_volume_score bars =
     (if length bars < 20 then 0
      else
        let avg_recent = real_of_int (sum_list (map volume (py_slice_from bars (- 5)))) / 5;
            avg_baseline = real_of_int (sum_list (map volume (py_slice bars (- 20) (- 5)))) / 15;
            ratio = (if avg_baseline = 0 then 0 else avg_recent / avg_baseline)
        in if ratio > 1.5 then 0.5 else if ratio < 0.5 then - 0.2 else 0.1)"

text \<open>
  The momentum score as specified: the \<open>k\<close>-day return is taken against the close
  \<open>k\<close> bars before the last one, and is 0 when the series is too short for it.
\<close>

definition spec_return :: "MarketData list \<Rightarrow> nat \<Rightarrow> real" where
  "spec_return bars k =
     (if length bars > k then
        (close_price (last bars) - close_price (bars ! (length bars - 1 - k)))
          / close_price (bars ! (length bars - 1 - k))
      else 0)"

definition spec_momentum_score :: "MarketData list \<Rightarrow> real" where
  "spec_momentum_score bars =
     min (max ((0.5 * spec_return bars 1 + 0.3 * spec_return bars 5 + 0.2 * spec_return bars 10) * 10)
              (- 1)) 1"

section \<open>Concrete inputs\<close>

text \<open>A bar that closed at \<open>c\<close> with volume \<open>v\<close>, and the indicator set with nothing set.\<close>

definition flat_bar :: "real \<Rightarrow> int \<Rightarrow> MarketData" where
  "flat_bar c v =
     \<lparr>symbol = ''ACME'', timestamp = 0, open_price = c, high_price = c, low_price = c,
      close_price = c, volume = v\<rparr>"

definition no_indicators :: TechnicalIndicators where
  "no_indicators =
     \<lparr>sma_20 = None, sma_50 = None, ema_12 = None, ema_26 = None, rsi = None, macd = None,
      macd_signal = None, macd_histogram = None, bollinger_upper = None,
      bollinger_middle = None, bollinger_lower = None, stochastic_k = None,
      stochastic_d = None, williams_r = None, atr = None\<rparr>"

definition good_news :: "NewsItem list" where
  "good_news = [\<lparr>sentiment = 1, sentiment_confidence = 1\<rparr>]"

text \<open>
  Fifty identical bars; a configuration that puts all the weight on sentiment; the signal
  the service generates from them.
\<close>

definition fifty_bars :: "MarketData list" where
  "fifty_bars = replicate 50 (flat_bar 100 1000)"

definition sentiment_only_config :: config where
  "sentiment_only_config =
     [''sentiment_weight'' \<mapsto> 1, ''technical_weight'' \<mapsto> 0,
      ''volume_weight'' \<mapsto> 0, ''momentum_weight'' \<mapsto> 0]"

definition acme_signal :: TradeSignal where
  "acme_signal =
     \<lparr>signal_id = 0, user_id = None, signal_symbol = ''ACME'', signal = BUY,
      price = 100, quantity = 200, confidence = 0.56,
      sentiment_score = 1, technical_score = 0, combined_score = 0.41, risk_level = LOW,
      reason = ''Strong positive market sentiment from recent news. Mixed technical signals. Multiple factors align for a potential buying opportunity in ACME.'',
      executed = False, created_at = 0, expires_at = Some 86400\<rparr>"

text \<open>A database holding that signal under id 7, and two brokers.\<close>

definition acme_db :: "int \<rightharpoonup> TradeSignal" where
  "acme_db = [7 \<mapsto> acme_signal]"

definition broker_ok :: "TradeSignal \<Rightarrow> TradeResult" where
  "broker_ok sg = \<lparr>success = True, message = ''Order executed''\<rparr>"

definition broker_down :: "TradeSignal \<Rightarrow> TradeResult" where
  "broker_down sg = \<lparr>success = False, message = ''Trading API not configured''\<rparr>"

text \<open>Only the Bollinger bands set, the lower band being exactly zero.\<close>

definition zero_band_indicators :: TechnicalIndicators where
  "zero_band_indicators =
     no_indicators\<lparr>bollinger_upper := Some 10, bollinger_middle := Some 5,
                    bollinger_lower := Some 0\<rparr>"

text \<open>Only the RSI set, at zero (fourteen falling closes in a row give exactly that).\<close>

definition zero_rsi_indicators :: TechnicalIndicators where
  "zero_rsi_indicators = no_indicators\<lparr>rsi := Some 0\<rparr>"

text \<open>
  Twenty bars whose last five have a high mean volume but an ordinary last bar, and
  twenty bars with no volume at all in the first fifteen.
\<close>

definition spike_then_calm :: "MarketData list" where
  "spike_then_calm =
     replicate 15 (flat_bar 100 100) @ replicate 4 (flat_bar 100 1000) @ [flat_bar 100 100]"

definition silent_baseline :: "MarketData list" where
  "silent_baseline = replicate 15 (flat_bar 100 0) @ replicate 5 (flat_bar 100 10)"

text \<open>
  The float written \<^verbatim>\<open>3333.3333333333335\<close>, the float nearest to a third of 10000 from
  above, and the largest power of two among the floats.
\<close>

definition third_of_budget :: real where
  "third_of_budget = 7330077518506667 / 2 ^ 41"

definition huge_budget :: real where
  "huge_budget = 2 ^ 1023"

definition two_bars :: "MarketData list" where
  "two_bars = [flat_bar 100 1000, flat_bar 110 1000]"

definition ten_rising_bars :: "MarketData list" where
  "ten_rising_bars = replicate 9 (flat_bar 100 1000) @ [flat_bar 101 1000]"

section \<open>Properties of the sentiment aggregation\<close>

lemma sentiment_loop_sums:
  "sentiment_loop i ns (tw, ws) =
     (tw + (\<Sum>k<length ns. 1 / (real (i + k) + 1)),
      ws + (\<Sum>k<length ns. sentiment (ns ! k) * sentiment_confidence (ns ! k) * (1 / (real (i + k) + 1))))"
proof (induction ns arbitrary: i tw ws)
  case Nil
  show ?case by simp
next
  case (Cons n ns)
  have shift_w: "(\<Sum>k<length (n # ns). 1 / (real (i + k) + 1)) =
      1 / (real i + 1) + (\<Sum>k<length ns. 1 / (real (Suc i + k) + 1))"
    unfolding length_Cons sum.lessThan_Suc_shift by simp
  have shift_s: "(\<Sum>k<length (n # ns).
        sentiment ((n # ns) ! k) * sentiment_confidence ((n # ns) ! k) * (1 / (real (i + k) + 1))) =
      sentiment n * sentiment_confidence n * (1 / (real i + 1)) +
      (\<Sum>k<length ns. sentiment (ns ! k) * sentiment_confidence (ns ! k) * (1 / (real (Suc i + k) + 1)))"
    unfolding length_Cons sum.lessThan_Suc_shift by simp
  show ?case
    unfolding shift_w shift_s by (simp add: Cons.IH [of "Suc i"] Let_def add.assoc)
qed

lemma total_weight_positive:
  assumes "ns \<noteq> []"
  shows "0 < (\<Sum>k<length ns. 1 / (real k + 1))"
proof -
  have "0 < length ns" using assms by simp
  then have "{..<length ns} \<noteq> {}" by auto
  moreover have "\<And>k. 0 < 1 / (real k + 1)" by simp
  ultimately show ?thesis by (intro sum_pos) auto
qed

text \<open>
  Claim C5. For a list of news items given most recent first, the aggregated sentiment is
  the sum of \<open>score * confidence * weight\<close> divided by the sum of the weights, where the
  item at position \<open>i\<close> (its recency rank) has weight \<open>1 / (i + 1)\<close>. The empty list
  gives 0 without raising, and a single item of score 1 and confidence 1 gives 1.
\<close>

theorem sentiment_score_is_weighted_mean:
  "calculate_sentiment_score news =
     (if news = [] then 0
      else (\<Sum>i<length news. sentiment (news ! i) * sentiment_confidence (news ! i) * (1 / (real i + 1)))
           / (\<Sum>i<length news. 1 / (real i + 1)))
   \<and> calculate_sentiment_score [] = 0
   \<and> calculate_sentiment_score [\<lparr>sentiment = 1, sentiment_confidence = 1\<rparr>] = 1"
proof -
  have general: "calculate_sentiment_score ns =
     (if ns = [] then 0
      else (\<Sum>i<length ns. sentiment (ns ! i) * sentiment_confidence (ns ! i) * (1 / (real i + 1)))
           / (\<Sum>i<length ns. 1 / (real i + 1)))" for ns
  proof (cases "ns = []")
    case True
    then show ?thesis by (simp add: calculate_sentiment_score_def)
  next
    case False
    from total_weight_positive [OF False] show ?thesis
      using False by (simp add: calculate_sentiment_score_def sentiment_loop_sums)
  qed
  have single: "calculate_sentiment_score [\<lparr>sentiment = 1, sentiment_confidence = 1\<rparr>] = 1"
    by (simp add: calculate_sentiment_score_def)
  show ?thesis using general [of news] single by (simp add: calculate_sentiment_score_def)
qed

section \<open>Properties of the position size\<close>

lemma float_ulp_pos: "0 < float_ulp x"
  by (simp add: float_ulp_def)

lemma float_ulp_binade:
  assumes "2 powi e \<le> \<bar>x\<bar>" and "\<bar>x\<bar> < 2 powi (e + 1)"
  shows "float_ulp x = 2 powi (max e (- 1022) - 52)"
proof -
  have "(0::real) < 2 powi e" by simp
  with assms(1) have pos: "0 < \<bar>x\<bar>" by linarith
  have lo: "(2::real) powr real_of_int e = 2 powi e"
    by (rule powr_real_of_int') simp_all
  have "(2::real) powr (real_of_int e + 1) = 2 powr real_of_int (e + 1)"
    by simp
  also have "\<dots> = 2 powi (e + 1)"
    by (rule powr_real_of_int') simp_all
  finally have hi: "(2::real) powr (real_of_int e + 1) = 2 powi (e + 1)" .
  have two: "(1::real) < 2" by simp
  have "\<lfloor>log 2 \<bar>x\<bar>\<rfloor> = e"
    unfolding floor_log_eq_powr_iff [OF pos two]
    using assms by (simp add: lo hi)
  then show ?thesis by (simp add: float_ulp_def)
qed

text \<open>Evaluating a rounding once the binade of the argument is known.\<close>

lemma float_round_binade:
  assumes "2 powi e \<le> \<bar>x\<bar>" and "\<bar>x\<bar> < 2 powi (e + 1)"
  shows "float_round x =
           (let r = of_int (round_half_even (x / 2 powi (max e (- 1022) - 52)))
                      * 2 powi (max e (- 1022) - 52)
            in if \<bar>r\<bar> \<ge> 2 ^ 1024 then (if x > 0 then PosInf else NegInf) else Finite r)"
proof -
  have "(0::real) < 2 powi e" by simp
  with assms(1) have "0 < \<bar>x\<bar>" by linarith
  then have "x \<noteq> 0" by simp
  then show ?thesis
    unfolding float_round_def float_ulp_binade [OF assms] by simp
qed

lemma round_half_even_nonneg: "0 \<le> y \<Longrightarrow> 0 \<le> round_half_even y"
  by (simp add: round_half_even_def Let_def)

lemma float_round_nonneg:
  assumes "0 \<le> x" and "float_round x = Finite r"
  shows "0 \<le> r"
proof (cases "x = 0")
  case True
  with assms show ?thesis by (simp add: float_round_def)
next
  case False
  have "0 \<le> x / float_ulp x"
    using assms(1) float_ulp_pos [of x] by simp
  then have "0 \<le> round_half_even (x / float_ulp x)"
    by (rule round_half_even_nonneg)
  then have "0 \<le> of_int (round_half_even (x / float_ulp x)) * float_ulp x"
    using float_ulp_pos [of x] by simp
  with assms(2) False show ?thesis
    by (simp add: float_round_def Let_def split: if_splits)
qed

text \<open>A finite result of the rounding is within half a spacing of the exact value.\<close>

lemma round_half_even_close: "\<bar>of_int (round_half_even y) - y\<bar> \<le> 1 / 2"
proof -
  have "of_int \<lfloor>y\<rfloor> \<le> y" and "y < of_int \<lfloor>y\<rfloor> + 1"
    by linarith+
  then show ?thesis
    by (auto simp add: round_half_even_def Let_def)
qed

lemma float_round_close:
  assumes "float_round x = Finite r"
  shows "\<bar>r - x\<bar> \<le> float_ulp x / 2"
proof (cases "x = 0")
  case True
  with assms float_ulp_pos [of x] show ?thesis
    by (simp add: float_round_def)
next
  case False
  define u where "u = float_ulp x"
  have u: "0 < u" unfolding u_def by (rule float_ulp_pos)
  from assms False have r: "r = of_int (round_half_even (x / u)) * u"
    by (simp add: float_round_def Let_def u_def split: if_splits)
  have "r - x = (of_int (round_half_even (x / u)) - x / u) * u"
    using u by (simp add: r left_diff_distrib)
  then have "\<bar>r - x\<bar> = \<bar>of_int (round_half_even (x / u)) - x / u\<bar> * u"
    using u by (simp add: abs_mult)
  also have "\<dots> \<le> 1 / 2 * u"
    using round_half_even_close [of "x / u"] u by (intro mult_right_mono) simp_all
  finally show ?thesis by (simp add: u_def)
qed

lemma py_int_nonneg: "0 \<le> x \<Longrightarrow> py_int x = \<lfloor>x\<rfloor>"
  by (simp add: py_int_def)

text \<open>
  Claim C7, as the code has it. Take a risk tier, a positive current price and a positive
  maximal position size \<open>m\<close> (the \<^verbatim>\<open>max_position_size\<close> entry of the configuration, or
  the default of the settings when the entry is missing), and let the float division of
  \<open>m\<close> by the risk multiplier (0.5 for LOW, 1.0 for MEDIUM, 1.5 for HIGH) be the finite
  float \<open>adjusted\<close> and the float division of \<open>adjusted\<close> by the price be the finite
  float \<open>q\<close>. Then the call returns the floor of \<open>q\<close> clamped to \<open>[1, 1000]\<close>, an
  integer between 1 and 1000.
\<close>

theorem position_size_is_clamped_float_floor:
  assumes "0 < current_price"
    and "m = (case config ''max_position_size'' of None \<Rightarrow> dflt | Some v \<Rightarrow> v)"
    and "0 < m"
    and "float_round (m / (case level of LOW \<Rightarrow> 0.5 | MEDIUM \<Rightarrow> 1.0 | HIGH \<Rightarrow> 1.5)) = Finite adjusted"
    and "float_round (adjusted / current_price) = Finite q"
  shows "calculate_position_size TradingService_init dflt current_price level config =
           Inr (max 1 (min \<lfloor>q\<rfloor> 1000))
         \<and> 1 \<le> max 1 (min \<lfloor>q\<rfloor> 1000)
         \<and> max 1 (min \<lfloor>q\<rfloor> 1000) \<le> 1000"
proof -
  let ?mult = "case level of LOW \<Rightarrow> 0.5 | MEDIUM \<Rightarrow> 1.0 | HIGH \<Rightarrow> (1.5::real)"
  have budget: "config_get config ''max_position_size'' dflt = m"
    using assms(2) by (simp add: config_get_def)
  have mult: "risk_multipliers TradingService_init level = ?mult"
    by (simp add: TradingService_init_def)
  have mult_pos: "0 < ?mult"
    by (cases level) simp_all
  have "0 \<le> m / ?mult"
    using assms(3) mult_pos by simp
  then have "0 \<le> adjusted"
    using assms(4) by (rule float_round_nonneg)
  then have "0 \<le> adjusted / current_price"
    using assms(1) by simp
  then have "0 \<le> q"
    using assms(5) by (rule float_round_nonneg)
  then have trunc: "py_int q = \<lfloor>q\<rfloor>"
    by (rule py_int_nonneg)
  have first: "float_div (Finite m) ?mult = Inr (Finite adjusted)"
    using mult_pos assms(4) by (simp add: float_div_def)
  have second: "float_div (Finite adjusted) current_price = Inr (Finite q)"
    using assms(1,5) by (simp add: float_div_def)
  have "calculate_position_size TradingService_init dflt current_price level config =
          Inr (max 1 (min \<lfloor>q\<rfloor> 1000))"
    unfolding calculate_position_size_def Let_def budget mult
    by (simp add: ebind_def first second float_to_int_def trunc)
  then show ?thesis by simp
qed

text \<open>
  At a price of 400 and HIGH risk: with a configured budget of 50000 the two divisions
  give the floats 33333.333333333336 and 83.33333333333334, and the quantity is 83; with
  no budget in the configuration the default 10000 gives 16.
\<close>

theorem position_size_witness:
  "calculate_position_size TradingService_init 10000 400 HIGH [''max_position_size'' \<mapsto> 50000] = Inr 83
   \<and> calculate_position_size TradingService_init 10000 400 HIGH Map.empty = Inr 16"
proof -
  have price: "(0::real) < 400" by simp
  have given: "(50000::real) =
      (case [''max_position_size'' \<mapsto> 50000] ''max_position_size'' of None \<Rightarrow> 10000 | Some v \<Rightarrow> v)"
    by simp
  have a1: "float_round (50000 / (case HIGH of LOW \<Rightarrow> 0.5 | MEDIUM \<Rightarrow> 1.0 | HIGH \<Rightarrow> 1.5))
              = Finite (4581298449066667 / 2 ^ 37)"
    using float_round_binade [of 15 "100000 / 3"] by (simp add: round_half_even_def Let_def)
  have q1: "float_round (4581298449066667 / 2 ^ 37 / 400) = Finite (2932031007402667 / 2 ^ 45)"
    using float_round_binade [of 6 "4581298449066667 / 2 ^ 37 / 400"]
    by (simp add: round_half_even_def Let_def)
  have missing: "(10000::real) =
      (case (Map.empty :: config) ''max_position_size'' of None \<Rightarrow> 10000 | Some v \<Rightarrow> v)"
    by simp
  have a2: "float_round (10000 / (case HIGH of LOW \<Rightarrow> 0.5 | MEDIUM \<Rightarrow> 1.0 | HIGH \<Rightarrow> 1.5))
              = Finite (7330077518506667 / 2 ^ 40)"
    using float_round_binade [of 12 "20000 / 3"] by (simp add: round_half_even_def Let_def)
  have q2: "float_round (7330077518506667 / 2 ^ 40 / 400) = Finite (4691249611844267 / 2 ^ 48)"
    using float_round_binade [of 4 "7330077518506667 / 2 ^ 40 / 400"]
    by (simp add: round_half_even_def Let_def)
  have budget: "(0::real) < 50000" and dflt: "(0::real) < 10000" by simp_all
  show ?thesis
    using position_size_is_clamped_float_floor
            [where config = "[''max_position_size'' \<mapsto> 50000]" and dflt = 10000
               and level = HIGH, OF price given budget a1 q1]
      position_size_is_clamped_float_floor
            [where config = Map.empty and dflt = 10000 and level = HIGH,
             OF price missing dflt a2 q2]
    by simp
qed

text \<open>
  Claim C7 as stated fails twice. With a budget of 10000, MEDIUM risk and the price
  3333.3333333333335 the exact quotient is just below 3 and its floor is 2, but the float
  division rounds it to 3.0 and the code returns 3. With a budget of \<open>2 ^ 1023\<close>, LOW
  risk and a price of 1 the first division overflows to infinity and the conversion to an
  integer raises \<^verbatim>\<open>OverflowError\<close>, so no quantity is returned at all.
\<close>

theorem position_size_counterexample:
  "calculate_position_size TradingService_init 10000 third_of_budget MEDIUM Map.empty = Inr 3
   \<and> spec_position_size 10000 MEDIUM third_of_budget = 2
   \<and> calculate_position_size TradingService_init 10000 1 LOW [''max_position_size'' \<mapsto> huge_budget]
       = Inl OverflowError"
proof -
  have a: "float_round 10000 = Finite 10000"
    using float_round_binade [of 13 10000] by (simp add: round_half_even_def Let_def)
  have q: "float_round (10000 / third_of_budget) = Finite 3"
    unfolding third_of_budget_def
    using float_round_binade [of 1 "10000 / (7330077518506667 / 2 ^ 41)"]
    by (simp add: round_half_even_def Let_def)
  have nonzero: "third_of_budget \<noteq> 0"
    by (simp add: third_of_budget_def)
  have rounded: "calculate_position_size TradingService_init 10000 third_of_budget MEDIUM Map.empty = Inr 3"
    using nonzero
    by (simp add: calculate_position_size_def config_get_def TradingService_init_def ebind_def
        float_div_def a q float_to_int_def py_int_def)
  have exact: "spec_position_size 10000 MEDIUM third_of_budget = 2"
    by (simp add: spec_position_size_def third_of_budget_def)
  have inf: "float_round (huge_budget * 2) = PosInf"
    unfolding huge_budget_def
    using float_round_binade [of 1024 "2 ^ 1023 * 2"]
    by (simp add: round_half_even_def Let_def)
  have overflow: "calculate_position_size TradingService_init 10000 1 LOW
      [''max_position_size'' \<mapsto> huge_budget] = Inl OverflowError"
    by (simp add: calculate_position_size_def config_get_def TradingService_init_def ebind_def
        float_div_def inf float_to_int_def)
  from rounded exact overflow show ?thesis by (intro conjI)
qed

section \<open>Properties of the confidence estimate\<close>

lemma map_filter_Some: "List.map_filter id (map Some vs) = vs"
  by (induction vs) (simp_all add: map_filter_simps)

lemma neutral_count:
  fixes c d :: real
  assumes "d \<le> c"
  shows "int (length vs) - int (length (filter (\<lambda>s. s > c) vs)) - int (length (filter (\<lambda>s. s < d) vs))
         = int (length (filter (\<lambda>s. \<not> s > c \<and> \<not> s < d) vs))"
  using assms by (induction vs) auto

lemma sum_abs_nonneg: "0 \<le> sum_list (map abs (vs :: real list))"
  by (induction vs) simp_all

text \<open>
  Claim C8. For every finite list of component scores the confidence is
  \<open>clamp (agreement_ratio * 0.6 + magnitude_avg * 0.4, 0, 1)\<close>, where a score is positive
  if above 0.1, negative if below -0.1 and neutral otherwise, the agreement ratio is the
  largest of the three class counts over the number of scores, and the average magnitude
  is the mean absolute score. The result lies in \<open>[0, 1]\<close>, and the empty list gives 0.
\<close>

theorem confidence_is_clamped_blend:
  "calculate_confidence (map Some vs) =
     (if vs = [] then 0
      else max 0 (min 1
        (real (max (length (filter (\<lambda>s. s > 0.1) vs))
                (max (length (filter (\<lambda>s. s < - 0.1) vs))
                     (length (filter (\<lambda>s. \<not> s > 0.1 \<and> \<not> s < - 0.1) vs))))
           / real (length vs) * 0.6
         + (\<Sum>s\<leftarrow>vs. \<bar>s\<bar>) / real (length vs) * 0.4)))
   \<and> 0 \<le> calculate_confidence (map Some vs)
   \<and> calculate_confidence (map Some vs) \<le> 1
   \<and> calculate_confidence [] = 0"
proof -
  define pos where "pos = length (filter (\<lambda>s. s > 0.1) vs)"
  define neg where "neg = length (filter (\<lambda>s. s < - 0.1) vs)"
  define neu where "neu = length (filter (\<lambda>s. \<not> s > 0.1 \<and> \<not> s < - 0.1) vs)"
  define mag where "mag = (\<Sum>s\<leftarrow>vs. \<bar>s\<bar>)"
  define blend where
    "blend = real (max pos (max neg neu)) / real (length vs) * 0.6 + mag / real (length vs) * 0.4"
  have empty: "calculate_confidence [] = 0"
    by (simp add: calculate_confidence_def map_filter_simps)
  have neutral: "int (length vs) - int pos - int neg = int neu"
    unfolding pos_def neg_def neu_def by (rule neutral_count) simp
  have agree: "real_of_int (max (int pos) (max (int neg) (int neu))) = real (max pos (max neg neu))"
    by (simp add: max_def)
  have "calculate_confidence (map Some vs) =
      (if vs = [] then 0
       else min (real_of_int (max (int pos) (max (int neg) (int (length vs) - int pos - int neg)))
                   / real (length vs) * 0.6 + mag / real (length vs) * 0.4) 1)"
    unfolding calculate_confidence_def map_filter_Some Let_def pos_def neg_def mag_def ..
  then have code: "calculate_confidence (map Some vs) = (if vs = [] then 0 else min blend 1)"
    unfolding neutral agree blend_def .
  have "0 \<le> mag"
    unfolding mag_def by (rule sum_abs_nonneg)
  then have blend_nonneg: "0 \<le> blend"
    unfolding blend_def by simp
  then have clamp: "min blend 1 = max 0 (min 1 blend)"
    by (simp add: min_def max_def)
  have formula: "calculate_confidence (map Some vs) = (if vs = [] then 0 else max 0 (min 1 blend))"
    unfolding code clamp ..
  have lower: "0 \<le> calculate_confidence (map Some vs)"
    unfolding code using blend_nonneg by simp
  have upper: "calculate_confidence (map Some vs) \<le> 1"
    unfolding code by simp
  from formula lower upper empty show ?thesis
    unfolding blend_def pos_def neg_def neu_def mag_def by (intro conjI)
qed

section \<open>Properties of the volume score\<close>

lemma last_of_recent_volumes:
  assumes "20 \<le> length xs"
  shows "py_index (map f (py_slice_from xs (- 5))) (- 1) = Inr (f (last xs))"
proof -
  have clip: "py_clip (length xs) (- 5) = length xs - 5"
    using assms by (simp add: py_clip_def nat_diff_distrib')
  have ne: "xs \<noteq> []" using assms by auto
  have len: "length (drop (length xs - 5) xs) = 5" using assms by simp
  have "drop (length xs - 5) xs ! 4 = xs ! (length xs - 1)"
    using assms by (simp add: nth_drop)
  also have "\<dots> = last xs"
    using ne by (simp add: last_conv_nth)
  finally have nth: "drop (length xs - 5) xs ! 4 = last xs" .
  show ?thesis
    unfolding py_slice_from_def clip py_index_def
    using len nth by simp
qed

text \<open>
  Claim C9, as the code has it. The volume score is 0 for fewer than 20 bars. Otherwise
  the volume of the last bar alone (not the mean of the last 5 bars) is compared with the
  mean volume of the 15 bars \<open>[-20, -5)\<close>: when that mean is 0 the score is 0; else a
  ratio above 1.5 gives 0.5, a ratio below 0.5 gives -0.2, and anything else 0.1. The
  function never raises.
\<close>

theorem volume_score_uses_last_bar:
  "calculate_volume_score market_data =
     Inr (if length market_data < 20 then 0
          else
            let current_volume = real_of_int (volume (last market_data));
                avg_baseline =
                  real_of_int (sum_list (map volume (py_slice market_data (- 20) (- 5)))) / 15
            in if avg_baseline = 0 then 0
               else if current_volume / avg_baseline > 1.5 then 0.5
               else if current_volume / avg_baseline < 0.5 then - 0.2
               else 0.1)"
proof (cases "length market_data < 20")
  case True
  then show ?thesis by (simp add: calculate_volume_score_def)
next
  case False
  then have long: "20 \<le> length market_data" by simp
  define base where "base = sum_list (map volume (py_slice market_data (- 20) (- 5)))"
  show ?thesis
    unfolding calculate_volume_score_def Let_def last_of_recent_volumes [OF long] base_def [symmetric]
    using False by (simp add: ebind_def fdiv_def)
qed

text \<open>
  Claim C9 as stated fails twice. With fifteen bars of volume 100, four of volume 1000
  and a last bar of volume 100, the mean of the last five is 820 and the specified score
  is 0.5, but the code compares the last bar only and returns 0.1. With a baseline of
  zero volume the specified ratio 0 gives -0.2, but the code returns 0.
\<close>

theorem volume_score_counterexample:
  "calculate_volume_score spike_then_calm = Inr (1 / 10)
   \<and> spec_volume_score spike_then_calm = 1 / 2
   \<and> calculate_volume_score silent_baseline = Inr 0
   \<and> spec_volume_score silent_baseline = - (1 / 5)"
  by (simp add: calculate_volume_score_def spec_volume_score_def spike_then_calm_def
      silent_baseline_def py_slice_def py_slice_from_def py_clip_def py_index_def flat_bar_def
      ebind_def fdiv_def Let_def sum_list_replicate nth_append)

section \<open>Properties of the momentum score\<close>

lemma py_index_from_end:
  assumes "0 < k" and "k \<le> length xs"
  shows "py_index xs (- int k) = Inr (xs ! (length xs - k))"
  using assms by (simp add: py_index_def nat_diff_distrib' of_nat_diff)

lemma period_return_spec:
  assumes "k < length bars" and "\<forall>b\<in>set bars. close_price b \<noteq> 0"
  shows "period_return bars (close_price (last bars)) (int k + 1) = Inr (spec_return bars k)"
proof -
  have idx: "py_index bars (- (int k + 1)) = Inr (bars ! (length bars - 1 - k))"
  proof -
    have eq: "- (int k + 1) = - int (Suc k)" by simp
    have "py_index bars (- int (Suc k)) = Inr (bars ! (length bars - Suc k))"
      by (rule py_index_from_end) (use assms(1) in simp_all)
    then show ?thesis unfolding eq by simp
  qed
  have "bars ! (length bars - 1 - k) \<in> set bars"
    using assms(1) by (intro nth_mem) simp
  then have "close_price (bars ! (length bars - 1 - k)) \<noteq> 0"
    using assms(2) by blast
  then show ?thesis
    unfolding period_return_def idx
    using assms(1) by (simp add: ebind_def fdiv_def spec_return_def)
qed

text \<open>
  Claim C10, as the code has it. For a series whose closes are all non-zero the momentum
  score does not raise. With fewer than 10 bars it is 0. With at least 10 bars it is
  \<open>clamp ((0.5 * r1 + 0.3 * r5 + 0.2 * r10) * 10, -1, 1)\<close>, where \<open>r1\<close>, \<open>r5\<close> and
  \<open>r10\<close> are the 1-day, 5-day and 10-day returns and \<open>r10\<close> is 0 when there are
  exactly 10 bars.
\<close>

theorem momentum_score_needs_ten_bars:
  assumes "\<forall>b\<in>set market_data. close_price b \<noteq> 0"
  shows "calculate_momentum_score market_data =
           Inr (if length market_data < 10 then 0 else spec_momentum_score market_data)"
proof (cases "length market_data < 10")
  case True
  then show ?thesis by (simp add: calculate_momentum_score_def)
next
  case False
  then have long: "10 \<le> length market_data" by simp
  then have ne: "market_data \<noteq> []" by auto
  have last_bar: "py_index market_data (- 1) = Inr (last market_data)"
    using py_index_from_end [of 1 market_data] long ne by (simp add: last_conv_nth)
  have r1: "period_return market_data (close_price (last market_data)) 2 = Inr (spec_return market_data 1)"
    using period_return_spec [of 1 market_data] long assms by simp
  have r5: "period_return market_data (close_price (last market_data)) 6 = Inr (spec_return market_data 5)"
    using period_return_spec [of 5 market_data] long assms by simp
  have r10: "(if length market_data \<ge> 11
              then period_return market_data (close_price (last market_data)) 11 else Inr 0)
             = Inr (spec_return market_data 10)"
  proof (cases "length market_data \<ge> 11")
    case True
    then show ?thesis
      using period_return_spec [of 10 market_data] assms by simp
  next
    case False
    then show ?thesis by (simp add: spec_return_def)
  qed
  have six: "6 \<le> length market_data" using long by simp
  show ?thesis
    unfolding calculate_momentum_score_def Let_def last_bar
    using False six by (simp add: ebind_def r1 r5 r10 spec_momentum_score_def)
qed

text \<open>
  Ten bars, nine closing at 100 and the last at 101 (no close is zero): both the 1-day
  and the 5-day return are 0.01, the 10-day return defaults to 0, and the score is 0.08.
  Two bars: the score is 0.
\<close>

theorem momentum_score_witness:
  "calculate_momentum_score ten_rising_bars = Inr (8 / 100)
   \<and> calculate_momentum_score two_bars = Inr 0"
proof -
  have a: "\<forall>b\<in>set ten_rising_bars. close_price b \<noteq> 0"
    by (simp add: ten_rising_bars_def flat_bar_def)
  have b: "\<forall>b\<in>set two_bars. close_price b \<noteq> 0"
    by (simp add: two_bars_def flat_bar_def)
  have c: "spec_momentum_score ten_rising_bars = 8 / 100"
    by (simp add: spec_momentum_score_def spec_return_def ten_rising_bars_def flat_bar_def nth_append)
  show ?thesis
    using momentum_score_needs_ten_bars [OF a] momentum_score_needs_ten_bars [OF b] c
    by (simp add: ten_rising_bars_def two_bars_def)
qed

text \<open>
  Claim C10 as stated fails on two bars closing at 100 and 110: the 1-day return is 0.1
  and the specified score is 0.5, but the code returns 0 for any series shorter than 10.
\<close>

theorem momentum_score_counterexample:
  "calculate_momentum_score two_bars = Inr 0 \<and> spec_momentum_score two_bars = 1 / 2"
  by (simp add: calculate_momentum_score_def spec_momentum_score_def spec_return_def
      two_bars_def flat_bar_def)

section \<open>Properties of signal execution\<close>

text \<open>
  Claim C3, as the code has it. For a signal that is in the database, \<open>execute_trade\<close>
  fails with HTTP status 400 and leaves the database unchanged when the signal is already
  executed. Otherwise it calls the broker whatever \<open>expires_at\<close> is, returns the
  broker's result, and marks the signal executed exactly when the broker reports success.
  Hence after an execution that succeeded, every further call on the same signal fails
  with status 400 and changes nothing.
\<close>

theorem execute_trade_ignores_expiry:
  assumes "db sid = Some sg"
  shows "execute_trade db broker sid =
           (if executed sg then (Inl (HTTPException 400), db)
            else (Inr (broker sg),
                  if success (broker sg) then db(sid \<mapsto> sg\<lparr>executed := True\<rparr>) else db))
         \<and> (\<not> executed sg \<and> success (broker sg) \<longrightarrow>
              execute_trade (snd (execute_trade db broker sid)) later_broker sid =
                (Inl (HTTPException 400), snd (execute_trade db broker sid)))"
  using assms by (simp add: execute_trade_def Let_def)

text \<open>
  The generated signal under id 7: the first execution succeeds and marks it, the second
  is refused.
\<close>

theorem execute_trade_witness:
  "acme_db 7 = Some acme_signal \<and> \<not> executed acme_signal \<and> success (broker_ok acme_signal)
   \<and> execute_trade acme_db broker_ok 7 =
       (Inr \<lparr>success = True, message = ''Order executed''\<rparr>, [7 \<mapsto> acme_signal\<lparr>executed := True\<rparr>])
   \<and> execute_trade [7 \<mapsto> acme_signal\<lparr>executed := True\<rparr>] broker_ok 7 =
       (Inl (HTTPException 400), [7 \<mapsto> acme_signal\<lparr>executed := True\<rparr>])"
proof -
  have a: "acme_db 7 = Some acme_signal" by (simp add: acme_db_def)
  have b: "\<not> executed acme_signal" by (simp add: acme_signal_def)
  have c: "success (broker_ok acme_signal)" by (simp add: broker_ok_def)
  note step =
    execute_trade_ignores_expiry
      [where db = acme_db and sid = 7 and sg = acme_signal and broker = broker_ok
         and later_broker = broker_ok, OF a]
  from step b c have first:
    "execute_trade acme_db broker_ok 7 =
       (Inr \<lparr>success = True, message = ''Order executed''\<rparr>, [7 \<mapsto> acme_signal\<lparr>executed := True\<rparr>])"
    by (simp add: broker_ok_def acme_db_def)
  from step b c have
    "execute_trade (snd (execute_trade acme_db broker_ok 7)) broker_ok 7 =
       (Inl (HTTPException 400), snd (execute_trade acme_db broker_ok 7))"
    by blast
  then have second:
    "execute_trade [7 \<mapsto> acme_signal\<lparr>executed := True\<rparr>] broker_ok 7 =
       (Inl (HTTPException 400), [7 \<mapsto> acme_signal\<lparr>executed := True\<rparr>])"
    unfolding first by simp
  from a b c first second show ?thesis by (intro conjI)
qed

text \<open>
  Claim C3 as stated fails. The signal expires at 86400; at time 100000 it is past its
  expiry, and its execution still succeeds and marks it executed. And when the broker
  reports a failure the signal stays unexecuted, so the second of two calls is not
  refused either.
\<close>

theorem execute_trade_counterexample:
  "spec_expired 100000 acme_signal
   \<and> execute_trade acme_db broker_ok 7 =
       (Inr \<lparr>success = True, message = ''Order executed''\<rparr>, [7 \<mapsto> acme_signal\<lparr>executed := True\<rparr>])
   \<and> execute_trade acme_db broker_down 7 =
       (Inr \<lparr>success = False, message = ''Trading API not configured''\<rparr>, acme_db)
   \<and> execute_trade (snd (execute_trade acme_db broker_down 7)) broker_down 7 =
       (Inr \<lparr>success = False, message = ''Trading API not configured''\<rparr>, acme_db)"
  by (simp add: spec_expired_def execute_trade_def acme_db_def acme_signal_def broker_ok_def
      broker_down_def)

section \<open>Properties of the configuration schema\<close>

text \<open>
  Claim C2, as the code has it. Constructing a \<open>TradingConfig\<close> with a
  \<^verbatim>\<open>technical_weight\<close> that, added to the \<^verbatim>\<open>sentiment_weight\<close> (the one given, or the
  default 0.6), differs from 1.0 by more than 0.01 raises a validation error at
  construction; in particular the weights 0.5 and 0.6 raise. Nothing relates
  \<^verbatim>\<open>sell_threshold\<close> to \<^verbatim>\<open>buy_threshold\<close>.
\<close>

theorem config_weights_validated:
  assumes "arg_technical_weight a = Some t"
    and "\<bar>t + field_default (arg_sentiment_weight a) 0.6 - 1\<bar> > 0.01"
  shows "TradingConfig_new a = Inl ValidationError"
  using assms
  by (simp add: TradingConfig_new_def Let_def weights_must_sum_to_one_def in_bounds_def
      field_default_def split: option.splits)

text \<open>The scenario of the specification: sentiment weight 0.5, technical weight 0.6.\<close>

theorem config_weights_witness:
  "arg_technical_weight
     (no_args\<lparr>arg_sentiment_weight := Some 0.5, arg_technical_weight := Some 0.6\<rparr>) = Some 0.6
   \<and> \<bar>0.6 + field_default
              (arg_sentiment_weight
                 (no_args\<lparr>arg_sentiment_weight := Some 0.5, arg_technical_weight := Some 0.6\<rparr>))
              0.6 - 1\<bar> > (0.01 :: real)
   \<and> TradingConfig_new
       (no_args\<lparr>arg_sentiment_weight := Some 0.5, arg_technical_weight := Some 0.6\<rparr>)
     = Inl ValidationError"
proof -
  let ?a = "no_args\<lparr>arg_sentiment_weight := Some 0.5, arg_technical_weight := Some 0.6\<rparr>"
  have a: "arg_technical_weight ?a = Some 0.6" by simp
  have b: "\<bar>0.6 + field_default (arg_sentiment_weight ?a) 0.6 - 1\<bar> > (0.01 :: real)"
    by (simp add: field_default_def)
  from config_weights_validated [OF a b] a b show ?thesis by simp
qed

text \<open>
  Claim C2 as stated fails for the thresholds: a configuration whose sell threshold 0.5
  is above its buy threshold -0.5 is constructed without an error, and the service
  accepts the same thresholds in its dictionary and answers BUY for a combined score of 0.
\<close>

theorem config_thresholds_counterexample:
  "TradingConfig_new (no_args\<lparr>arg_buy_threshold := Some (- 0.5), arg_sell_threshold := Some 0.5\<rparr>) =
     Inr \<lparr>cfg_symbol = ''RELIANCE'', buy_threshold = - 0.5, sell_threshold = 0.5,
          risk_tolerance = MEDIUM, max_position_size = 10000, enable_notifications = True,
          enable_paper_trading = True, stop_loss_percent = 5, take_profit_percent = 10,
          sentiment_weight = 0.6, technical_weight = 0.4\<rparr>
   \<and> determine_signal_type 0 [''buy_threshold'' \<mapsto> - 0.5, ''sell_threshold'' \<mapsto> 0.5] = BUY"
  by (simp add: TradingConfig_new_def no_args_def in_bounds_def field_default_def
      determine_signal_type_def config_get_def)

section \<open>Properties of the score combination\<close>

lemma signal_type_ignores_weights:
  "determine_signal_type c
     (config(''sentiment_weight'' \<mapsto> ws, ''technical_weight'' \<mapsto> wt,
             ''volume_weight'' \<mapsto> wv, ''momentum_weight'' \<mapsto> wm))
   = determine_signal_type c config"
  by (simp add: determine_signal_type_def config_get_def)

lemma position_size_ignores_weights:
  "calculate_position_size self dflt p level
     (config(''sentiment_weight'' \<mapsto> ws, ''technical_weight'' \<mapsto> wt,
             ''volume_weight'' \<mapsto> wv, ''momentum_weight'' \<mapsto> wm))
   = calculate_position_size self dflt p level config"
  by (simp add: calculate_position_size_def config_get_def)

lemma generate_signal_ignores_weights:
  "generate_signal self dflt symb
     (config(''sentiment_weight'' \<mapsto> ws, ''technical_weight'' \<mapsto> wt,
             ''volume_weight'' \<mapsto> wv, ''momentum_weight'' \<mapsto> wm))
     uid market_data news_data indicators now
   = generate_signal self dflt symb config uid market_data news_data indicators now"
  unfolding generate_signal_def signal_type_ignores_weights position_size_ignores_weights ..

text \<open>
  Claim C1, as the code has it. Whenever signal generation produces a signal, its
  \<open>combined_score\<close> is \<open>sentiment * w_s + technical * w_t + volume * w_v + momentum * w_m\<close>
  over the four component scores of that invocation, where the weights are those of the
  service object's \<open>SignalWeights\<close> (0.4, 0.4, 0.1 and 0.1 in the service as constructed).
  Weights placed in the supplied configuration are not read: the same signal is generated
  whatever they are.
\<close>

theorem combined_score_uses_service_weights:
  assumes "generate_signal self dflt symb config uid market_data news_data indicators now = Inr sg"
  shows "(\<exists>t v m. calculate_technical_score indicators market_data = Inr t
            \<and> calculate_volume_score market_data = Inr v
            \<and> calculate_momentum_score market_data = Inr m
            \<and> combined_score sg =
                calculate_sentiment_score news_data * weight_sentiment (signal_weights self) +
                t * weight_technical (signal_weights self) +
                v * weight_volume (signal_weights self) +
                m * weight_momentum (signal_weights self))
         \<and> signal_weights TradingService_init =
             \<lparr>weight_sentiment = 0.4, weight_technical = 0.4, weight_volume = 0.1, weight_momentum = 0.1\<rparr>
         \<and> generate_signal self dflt symb
              (config(''sentiment_weight'' \<mapsto> ws, ''technical_weight'' \<mapsto> wt,
                      ''volume_weight'' \<mapsto> wv, ''momentum_weight'' \<mapsto> wm))
              uid market_data news_data indicators now = Inr sg"
proof -
  from assms obtain t where t: "calculate_technical_score indicators market_data = Inr t"
    by (cases "calculate_technical_score indicators market_data")
       (simp_all add: generate_signal_def ebind_def Let_def split: if_splits)
  from assms t obtain v where v: "calculate_volume_score market_data = Inr v"
    by (cases "calculate_volume_score market_data")
       (simp_all add: generate_signal_def ebind_def Let_def split: if_splits)
  from assms t v obtain m where m: "calculate_momentum_score market_data = Inr m"
    by (cases "calculate_momentum_score market_data")
       (simp_all add: generate_signal_def ebind_def Let_def split: if_splits)
  have "combined_score sg =
          calculate_sentiment_score news_data * weight_sentiment (signal_weights self) +
          t * weight_technical (signal_weights self) +
          v * weight_volume (signal_weights self) +
          m * weight_momentum (signal_weights self)"
    using assms t v m
    by (auto simp add: generate_signal_def ebind_def Let_def TradeSignal_new_def
        split: if_splits sum.splits)
  with t v m have scores: "\<exists>t v m. calculate_technical_score indicators market_data = Inr t
            \<and> calculate_volume_score market_data = Inr v
            \<and> calculate_momentum_score market_data = Inr m
            \<and> combined_score sg =
                calculate_sentiment_score news_data * weight_sentiment (signal_weights self) +
                t * weight_technical (signal_weights self) +
                v * weight_volume (signal_weights self) +
                m * weight_momentum (signal_weights self)"
    by blast
  have init: "signal_weights TradingService_init =
      \<lparr>weight_sentiment = 0.4, weight_technical = 0.4, weight_volume = 0.1, weight_momentum = 0.1\<rparr>"
    by (simp add: TradingService_init_def SignalWeights_default_def)
  from scores init assms show ?thesis
    unfolding generate_signal_ignores_weights by (intro conjI)
qed

text \<open>Fifty flat bars and one fully positive news item, evaluated step by step.\<close>

lemma fifty_technical: "calculate_technical_score no_indicators fifty_bars = Inr 0"
  by (simp add: calculate_technical_score_def ebind_def py_index_def no_indicators_def fifty_bars_def
      rsi_signals_def macd_signals_def moving_average_signals_def price_vs_average_def
      bollinger_signals_def stochastic_signals_def)

lemma fifty_volume: "calculate_volume_score fifty_bars = Inr (1 / 10)"
  by (simp add: calculate_volume_score_def ebind_def py_index_def py_slice_def py_slice_from_def
      py_clip_def fdiv_def flat_bar_def fifty_bars_def Let_def sum_list_replicate)

lemma fifty_momentum: "calculate_momentum_score fifty_bars = Inr 0"
  by (simp add: calculate_momentum_score_def period_return_def ebind_def py_index_def fdiv_def
      flat_bar_def fifty_bars_def Let_def)

lemma fifty_risk: "calculate_risk_level fifty_bars good_news no_indicators = Inr LOW"
  by (simp add: calculate_risk_level_def atr_check_def volatility_check_def news_check_def
      rsi_check_def risk_level_of_def ebind_def py_slice_from_def py_slice_to_def py_clip_def
      flat_bar_def fifty_bars_def good_news_def no_indicators_def Let_def np_std_def np_mean_def
      sum_list_replicate)

lemma acme_generated:
  "generate_signal TradingService_init 10000 ''ACME'' sentiment_only_config None fifty_bars
     good_news no_indicators 0 = Inr acme_signal"
proof -
  have sentiment: "calculate_sentiment_score good_news = 1"
    by (simp add: calculate_sentiment_score_def good_news_def)
  have last_bar: "py_index fifty_bars (- 1) = Inr (flat_bar 100 1000)"
    by (simp add: py_index_def fifty_bars_def)
  have adjusted: "float_round 20000 = Finite 20000"
    using float_round_binade [of 14 20000] by (simp add: round_half_even_def Let_def)
  have quotient: "float_round 200 = Finite 200"
    using float_round_binade [of 7 200] by (simp add: round_half_even_def Let_def)
  have size: "calculate_position_size TradingService_init 10000 100 LOW sentiment_only_config = Inr 200"
    by (simp add: calculate_position_size_def float_div_def ebind_def config_get_def
        sentiment_only_config_def TradingService_init_def adjusted quotient float_to_int_def
        py_int_def)
  have long: "\<not> length fifty_bars < 50"
    by (simp add: fifty_bars_def)
  have weights: "signal_weights TradingService_init = SignalWeights_default"
    by (simp add: TradingService_init_def)
  have conf: "calculate_confidence [Some 1, Some 0, Some (1 / 10), Some 0] = 14 / 25"
    by (simp add: calculate_confidence_def map_filter_simps Let_def)
  have kind: "determine_signal_type (41 / 100) sentiment_only_config = BUY"
    by (simp add: determine_signal_type_def config_get_def sentiment_only_config_def)
  have why: "generate_reasoning BUY 1 0 (1 / 10) 0 ''ACME'' = reason acme_signal"
    by (simp add: generate_reasoning_def acme_signal_def)
  show ?thesis
    unfolding generate_signal_def Let_def fifty_technical fifty_volume fifty_momentum fifty_risk
      sentiment last_bar weights
    using long
    by (simp add: ebind_def flat_bar_def size SignalWeights_default_def conf kind why
        TradeSignal_new_def acme_signal_def)
qed

text \<open>
  On that input the combined score is \<open>1 * 0.4 + 0 * 0.4 + 0.1 * 0.1 + 0 * 0.1\<close>, and
  replacing the weights in the configuration by four quarters changes nothing.
\<close>

theorem combined_score_witness:
  "generate_signal TradingService_init 10000 ''ACME'' sentiment_only_config None fifty_bars
     good_news no_indicators 0 = Inr acme_signal
   \<and> combined_score acme_signal = 1 * 0.4 + 0 * 0.4 + 0.1 * 0.1 + 0 * 0.1
   \<and> generate_signal TradingService_init 10000 ''ACME''
        (sentiment_only_config(''sentiment_weight'' \<mapsto> 0.25, ''technical_weight'' \<mapsto> 0.25,
                               ''volume_weight'' \<mapsto> 0.25, ''momentum_weight'' \<mapsto> 0.25))
        None fifty_bars good_news no_indicators 0 = Inr acme_signal"
  using combined_score_uses_service_weights [OF acme_generated, of "0.25" "0.25" "0.25" "0.25"] acme_generated
  by (simp add: acme_signal_def)

text \<open>
  Claim C1 as stated fails. The configuration puts weight 1 on sentiment and 0 on the
  other scores, so the specified combined score of the component scores 1, 0, 0.1 and 0
  is 1; the generated signal has 0.41.
\<close>

theorem combined_score_counterexample:
  "generate_signal TradingService_init 10000 ''ACME'' sentiment_only_config None fifty_bars
     good_news no_indicators 0 = Inr acme_signal
   \<and> calculate_sentiment_score good_news = 1
   \<and> calculate_technical_score no_indicators fifty_bars = Inr 0
   \<and> calculate_volume_score fifty_bars = Inr (1 / 10)
   \<and> calculate_momentum_score fifty_bars = Inr 0
   \<and> combined_score acme_signal = 41 / 100
   \<and> spec_combined_score sentiment_only_config 1 0 (1 / 10) 0 = 1"
  using acme_generated fifty_technical fifty_volume fifty_momentum
  by (simp add: acme_signal_def spec_combined_score_def sentiment_only_config_def config_get_def
      calculate_sentiment_score_def good_news_def)

section \<open>Properties of the technical score\<close>

text \<open>
  Each block adds the contribution listed in the specification's table and counts one
  indicator, when its indicator is present in the sense of its own guard.
\<close>

lemma rsi_block:
  "rsi_signals ind (s, n) =
     (s + sum_list (case rsi ind of None \<Rightarrow> []
                    | Some r \<Rightarrow> [if r < 30 then 0.7 else if r > 70 then - 0.7
                                 else if 40 \<le> r \<and> r \<le> 60 then 0.1 else 0]),
      n + length (case rsi ind of None \<Rightarrow> ([] :: real list)
                    | Some r \<Rightarrow> [if r < 30 then 0.7 else if r > 70 then - 0.7
                                 else if 40 \<le> r \<and> r \<le> 60 then 0.1 else 0]))"
  by (simp add: rsi_signals_def split: option.splits)

lemma macd_block:
  "macd_signals ind (s, n) =
     (s + sum_list (case (macd ind, macd_signal ind) of
                      (Some m, Some sg) \<Rightarrow> [if m > sg then 0.5 else - 0.5] | _ \<Rightarrow> []),
      n + length (case (macd ind, macd_signal ind) of
                      (Some m, Some sg) \<Rightarrow> [if m > sg then 0.5 else - (0.5 :: real)] | _ \<Rightarrow> []))"
  by (simp add: macd_signals_def split: option.splits)

lemma moving_average_block:
  "moving_average_signals ind (s, n) =
     (s + sum_list (case (sma_20 ind, sma_50 ind) of
                      (Some a, Some b) \<Rightarrow> [if a > b then 0.6 else - 0.6] | _ \<Rightarrow> []),
      n + length (case (sma_20 ind, sma_50 ind) of
                      (Some a, Some b) \<Rightarrow> [if a > b then 0.6 else - (0.6 :: real)] | _ \<Rightarrow> []))"
  by (simp add: moving_average_signals_def split: option.splits)

lemma price_block:
  assumes "sma_20 ind \<noteq> Some 0"
  shows "price_vs_average ind p (s, n) =
     Inr (s + sum_list (case sma_20 ind of None \<Rightarrow> []
                        | Some a \<Rightarrow> [min (max ((p - a) / a * 2) (- 0.5)) 0.5]),
          n + length (case sma_20 ind of None \<Rightarrow> ([] :: real list)
                        | Some a \<Rightarrow> [min (max ((p - a) / a * 2) (- 0.5)) 0.5]))"
  using assms by (simp add: price_vs_average_def ebind_def fdiv_def split: option.splits)

lemma bollinger_block:
  assumes "bollinger_upper ind \<noteq> Some 0" and "bollinger_lower ind \<noteq> Some 0"
    and "bollinger_middle ind \<noteq> Some 0"
    and "bollinger_upper ind = None \<or> bollinger_upper ind \<noteq> bollinger_lower ind"
  shows "bollinger_signals ind p (s, n) =
     Inr (s + sum_list (case (bollinger_upper ind, bollinger_lower ind, bollinger_middle ind) of
                          (Some u, Some l, Some m) \<Rightarrow>
                            [if (p - l) / (u - l) < 0.2 then 0.4
                             else if (p - l) / (u - l) > 0.8 then - 0.4 else 0]
                        | _ \<Rightarrow> []),
          n + length (case (bollinger_upper ind, bollinger_lower ind, bollinger_middle ind) of
                          (Some u, Some l, Some m) \<Rightarrow>
                            [if (p - l) / (u - l) < 0.2 then 0.4
                             else if (p - l) / (u - l) > 0.8 then - 0.4 else (0 :: real)]
                        | _ \<Rightarrow> []))"
  using assms by (auto simp add: bollinger_signals_def ebind_def fdiv_def split: option.splits)

lemma stochastic_block:
  "stochastic_signals ind (s, n) =
     (s + sum_list (case stochastic_k ind of None \<Rightarrow> []
                    | Some k \<Rightarrow> [if k < 20 then 0.3 else if k > 80 then - 0.3 else 0]),
      n + length (case stochastic_k ind of None \<Rightarrow> ([] :: real list)
                    | Some k \<Rightarrow> [if k < 20 then 0.3 else if k > 80 then - 0.3 else 0]))"
  by (simp add: stochastic_signals_def split: option.splits)

lemma technical_score_matches_spec:
  assumes "market_data \<noteq> []"
    and "sma_20 ind \<noteq> Some 0"
    and "bollinger_upper ind \<noteq> Some 0" and "bollinger_lower ind \<noteq> Some 0"
    and "bollinger_middle ind \<noteq> Some 0"
    and "bollinger_upper ind = None \<or> bollinger_upper ind \<noteq> bollinger_lower ind"
  shows "calculate_technical_score ind market_data =
           Inr (spec_technical_score ind (close_price (last market_data)))"
proof -
  define p where "p = close_price (last market_data)"
  define c1 :: "real list" where
    "c1 = (case rsi ind of None \<Rightarrow> []
           | Some r \<Rightarrow> [if r < 30 then 0.7 else if r > 70 then - 0.7
                        else if 40 \<le> r \<and> r \<le> 60 then 0.1 else 0])"
  define c2 :: "real list" where
    "c2 = (case (macd ind, macd_signal ind) of
             (Some m, Some sg) \<Rightarrow> [if m > sg then 0.5 else - 0.5] | _ \<Rightarrow> [])"
  define c3 :: "real list" where
    "c3 = (case (sma_20 ind, sma_50 ind) of
             (Some a, Some b) \<Rightarrow> [if a > b then 0.6 else - 0.6] | _ \<Rightarrow> [])"
  define c4 :: "real list" where
    "c4 = (case sma_20 ind of None \<Rightarrow> []
           | Some a \<Rightarrow> [min (max ((p - a) / a * 2) (- 0.5)) 0.5])"
  define c5 :: "real list" where
    "c5 = (case (bollinger_upper ind, bollinger_lower ind, bollinger_middle ind) of
             (Some u, Some l, Some m) \<Rightarrow>
               [if (p - l) / (u - l) < 0.2 then 0.4
                else if (p - l) / (u - l) > 0.8 then - 0.4 else 0]
           | _ \<Rightarrow> [])"
  define c6 :: "real list" where
    "c6 = (case stochastic_k ind of None \<Rightarrow> []
           | Some k \<Rightarrow> [if k < 20 then 0.3 else if k > 80 then - 0.3 else 0])"
  have last_bar: "py_index market_data (- 1) = Inr (last market_data)"
    using py_index_from_end [of 1 market_data] assms(1)
    by (simp add: last_conv_nth Suc_leI)
  have b1: "rsi_signals ind (s, n) = (s + sum_list c1, n + length c1)" for s n
    unfolding c1_def by (rule rsi_block)
  have b2: "macd_signals ind (s, n) = (s + sum_list c2, n + length c2)" for s n
    unfolding c2_def by (rule macd_block)
  have b3: "moving_average_signals ind (s, n) = (s + sum_list c3, n + length c3)" for s n
    unfolding c3_def by (rule moving_average_block)
  have b4: "price_vs_average ind p (s, n) = Inr (s + sum_list c4, n + length c4)" for s n
    unfolding c4_def by (rule price_block [OF assms(2)])
  have b5: "bollinger_signals ind p (s, n) = Inr (s + sum_list c5, n + length c5)" for s n
    unfolding c5_def by (rule bollinger_block [OF assms(3-6)])
  have b6: "stochastic_signals ind (s, n) = (s + sum_list c6, n + length c6)" for s n
    unfolding c6_def by (rule stochastic_block)
  have spec: "spec_contributions ind p = c1 @ c2 @ c3 @ c4 @ c5 @ c6"
    unfolding spec_contributions_def c1_def c2_def c3_def c4_def c5_def c6_def by simp
  have code: "calculate_technical_score ind market_data =
      Inr (if length (c1 @ c2 @ c3 @ c4 @ c5 @ c6) > 0
           then sum_list (c1 @ c2 @ c3 @ c4 @ c5 @ c6) / real (length (c1 @ c2 @ c3 @ c4 @ c5 @ c6))
           else 0)"
    unfolding calculate_technical_score_def last_bar
    by (simp add: ebind_def p_def [symmetric] b1 b2 b3 b4 b5 b6 add.assoc)
  show ?thesis
    unfolding code spec_technical_score_def Let_def p_def [symmetric] spec by simp
qed

text \<open>The scenario of the specification: an RSI of 25 and nothing else set gives 0.7.\<close>

lemma technical_score_oversold_rsi:
  "calculate_technical_score (no_indicators\<lparr>rsi := Some 25\<rparr>) [flat_bar 100 1000] = Inr (7 / 10)"
  by (simp add: calculate_technical_score_def no_indicators_def flat_bar_def py_index_def
      ebind_def rsi_signals_def macd_signals_def moving_average_signals_def
      price_vs_average_def bollinger_signals_def stochastic_signals_def)

text \<open>
  Claim C4 says that the technical score is the mean of the table contributions of the
  indicators that are present. The code departs from it where a Bollinger band is set to
  exactly 0: the truth test of the Bollinger block takes the band for missing. With the
  bands 10, 5 and 0 and a price of 1 the position within the bands is 0.1, so the
  specified score is 0.4 (one indicator contributing 0.4); the code returns 0.
  (\<open>technical_score_matches_spec\<close> above shows the agreement on all other inputs that
  do not divide by zero.)
\<close>

theorem technical_score_drops_zero_band:
  "calculate_technical_score zero_band_indicators [flat_bar 1 1000] = Inr 0
   \<and> spec_technical_score zero_band_indicators 1 = 4 / 10"
  by (simp add: calculate_technical_score_def spec_technical_score_def spec_contributions_def
      zero_band_indicators_def no_indicators_def flat_bar_def py_index_def ebind_def
      rsi_signals_def macd_signals_def moving_average_signals_def price_vs_average_def
      bollinger_signals_def stochastic_signals_def)

section \<open>Properties of the risk level\<close>

lemma risk_level_of_breakpoints:
  "risk_level_of n = (if n = 0 then LOW else if n < 3 then MEDIUM else HIGH)"
  by (simp add: risk_level_of_def)

lemma rsi_check_matches_spec:
  "rsi indicators \<noteq> Some 0 \<Longrightarrow>
     rsi_check indicators n = (if spec_rsi_extreme indicators then n + 1 else n)"
  by (simp add: rsi_check_def spec_rsi_extreme_def split: option.splits)

text \<open>
  Claim C6 says that the risk-factor count is incremented when the RSI is present and
  above 80 or below 20. The code departs from it at an RSI of exactly 0, the most extreme
  oversold reading: the truth test \<^verbatim>\<open>if indicators.rsi:\<close> takes it for missing, the
  count stays 0 and the level is LOW, where the specified count 1 gives MEDIUM.
\<close>

theorem risk_level_misses_zero_rsi:
  "spec_rsi_extreme zero_rsi_indicators
   \<and> rsi_check zero_rsi_indicators 0 = 0
   \<and> calculate_risk_level [flat_bar 100 1000] [] zero_rsi_indicators = Inr LOW
   \<and> risk_level_of 1 = MEDIUM"
  by (simp add: spec_rsi_extreme_def rsi_check_def calculate_risk_level_def zero_rsi_indicators_def
      no_indicators_def atr_check_def volatility_check_def news_check_def risk_level_of_def ebind_def)

end
